theory Spec2Isabelle
  imports Complex_Main "HOL-Library.Log_Nat"
begin

chapter \<open>Best-Fit: colour harmony and outfit generation\<close>

text \<open>
  A shallow embedding of \<^verbatim>\<open>backend/app/services/color_service.py\<close> and
  \<^verbatim>\<open>backend/app/services/outfit_service.py\<close>. Part I holds the model, Part II the
  properties proved of it.
\<close>

section \<open>Part I: the model\<close>

subsection \<open>Python floats\<close>

text \<open>
  A Python \<^verbatim>\<open>float\<close> is an IEEE 754 binary64 number: a rational \<open>m * 2^e\<close> with
  \<open>\<bar>m\<bar> < 2^53\<close>. Every arithmetic operation returns the exact result rounded to the
  nearest such number, ties to the even mantissa. A float is modelled by the real number it
  denotes and the rounding by \<open>fl\<close>. The exponent range is left unbounded: all quantities
  of the program lie between \<open>2^-60\<close> and \<open>2^60\<close> in magnitude (or are zero), far from
  overflow and from the subnormal numbers.

  \<open>expo y\<close> is the binary exponent of \<open>y > 0\<close> (\<open>2^expo y \<le> y < 2^(expo y + 1)\<close>),
  computed from the bit length of an integer so that it can be evaluated.
\<close>

definition expo :: "real \<Rightarrow> int" where
  "expo y = (if 1 \<le> y then bitlen \<lfloor>y\<rfloor> - 1 else - bitlen (\<lceil>1 / y\<rceil> - 1))"

text \<open>Rounding a real to the nearest integer, ties to even.\<close>

definition rhe :: "real \<Rightarrow> int" where
  "rhe x = (let f = \<lfloor>x\<rfloor>; r = x - of_int f in
     if r < 1/2 then f else if 1/2 < r then f + 1 else if even f then f else f + 1)"

text \<open>The unit in the last place of the binade of \<open>x\<close>, and rounding to binary64.\<close>

definition ulp :: "real \<Rightarrow> real" where
  "ulp x = 2 powi (expo \<bar>x\<bar> - 52)"

definition fl :: "real \<Rightarrow> real" where
  "fl x = (if x = 0 then 0 else of_int (rhe (x / ulp x)) * ulp x)"

text \<open>The float operations \<^verbatim>\<open>+\<close>, \<^verbatim>\<open>-\<close>, \<^verbatim>\<open>*\<close>, \<^verbatim>\<open>/\<close> of Python.\<close>

definition fadd :: "real \<Rightarrow> real \<Rightarrow> real" where
  "fadd x y = fl (x + y)"

definition fsub :: "real \<Rightarrow> real \<Rightarrow> real" where
  "fsub x y = fl (x - y)"

definition fmul :: "real \<Rightarrow> real \<Rightarrow> real" where
  "fmul x y = fl (x * y)"

definition fdiv :: "real \<Rightarrow> real \<Rightarrow> real" where
  "fdiv x y = fl (x / y)"

text \<open>
  \<^verbatim>\<open>int(x)\<close> truncates towards zero. \<^verbatim>\<open>x % w\<close> on floats is C's \<^verbatim>\<open>fmod\<close>, which is
  exact and has the sign of \<open>x\<close>, followed by one rounded addition of \<open>w\<close> when the signs of
  the remainder and of \<open>w\<close> differ (CPython's \<^verbatim>\<open>float_rem\<close>); \<open>w\<close> is a non-zero constant
  wherever the program uses it.
\<close>

definition py_int :: "real \<Rightarrow> int" where
  "py_int x = (if 0 \<le> x then \<lfloor>x\<rfloor> else \<lceil>x\<rceil>)"

definition py_mod :: "real \<Rightarrow> real \<Rightarrow> real" where
  "py_mod x w =
     (let m = x - w * of_int (py_int (x / w)) in
      if m \<noteq> 0 \<and> (w < 0) \<noteq> (m < 0) then fadd m w else m)"

text \<open>
  \<^verbatim>\<open>round(x, 2)\<close>: CPython prints \<open>x\<close> correctly rounded to two decimals (ties of the
  exact binary value to even) and reads the decimal back as the nearest float.
\<close>

definition py_round2 :: "real \<Rightarrow> real" where
  "py_round2 x = fl (of_int (rhe (x * 100)) / 100)"

subsection \<open>The data model (\<^verbatim>\<open>models/clothing.py\<close>)\<close>

datatype ClothingCategory = TOP | BOTTOM | DRESS | OUTERWEAR | SHOES | ACCESSORY

datatype ClothingStyle =
  CASUAL | FORMAL | SPORTY | BUSINESS | EVENING | BOHEMIAN | STREETWEAR | VINTAGE

type_synonym rgb = "int \<times> int \<times> int"

record ColorInfo =
  hex :: string
  rgb :: rgb
  name :: string
  percentage :: real

text \<open>
  \<^verbatim>\<open>ClothingItem\<close>; the fields \<^verbatim>\<open>id\<close> and \<^verbatim>\<open>name\<close> are \<open>item_id\<close> and
  \<open>item_name\<close> here, and the time stamp \<^verbatim>\<open>created_at\<close>, which no function of the
  services reads, is left out.
\<close>

record ClothingItem =
  item_id :: string
  item_name :: string
  category :: ClothingCategory
  style :: ClothingStyle
  image_path :: string
  dominant_colors :: "ColorInfo list"
  tags :: "string list"

subsection \<open>The standard module \<^verbatim>\<open>colorsys\<close>\<close>

text \<open>
  \<^verbatim>\<open>ColorHarmonyService\<close> converts colours with \<^verbatim>\<open>colorsys.rgb_to_hls\<close> and
  \<^verbatim>\<open>colorsys.hls_to_rgb\<close> of the Python standard library; they are modelled as CPython
  writes them, operation by operation.
\<close>

definition ONE_THIRD :: real where "ONE_THIRD = fdiv 1 3"
definition ONE_SIXTH :: real where "ONE_SIXTH = fdiv 1 6"
definition TWO_THIRD :: real where "TWO_THIRD = fdiv 2 3"

definition rgb_to_hls :: "real \<Rightarrow> real \<Rightarrow> real \<Rightarrow> real \<times> real \<times> real" where
  "rgb_to_hls r g b =
     (let maxc = max r (max g b);
          minc = min r (min g b);
          sumc = fadd maxc minc;
          rangec = fsub maxc minc;
          l = fdiv sumc 2
      in if minc = maxc then (0, l, 0)
         else
           let s = (if l \<le> 1/2 then fdiv rangec sumc
                    else fdiv rangec (fsub (fsub 2 maxc) minc));
               rc = fdiv (fsub maxc r) rangec;
               gc = fdiv (fsub maxc g) rangec;
               bc = fdiv (fsub maxc b) rangec;
               h = (if r = maxc then fsub bc gc
                    else if g = maxc then fsub (fadd 2 rc) bc
                    else fsub (fadd 4 gc) rc)
           in (py_mod (fdiv h 6) 1, l, s))"

definition v_hls :: "real \<Rightarrow> real \<Rightarrow> real \<Rightarrow> real" where
  "v_hls m1 m2 hue0 =
     (let hue = py_mod hue0 1 in
      if hue < ONE_SIXTH then fadd m1 (fmul (fmul (fsub m2 m1) hue) 6)
      else if hue < 1/2 then m2
      else if hue < TWO_THIRD then fadd m1 (fmul (fmul (fsub m2 m1) (fsub TWO_THIRD hue)) 6)
      else m1)"

definition hls_to_rgb :: "real \<Rightarrow> real \<Rightarrow> real \<Rightarrow> real \<times> real \<times> real" where
  "hls_to_rgb h l s =
     (if s = 0 then (l, l, l)
      else
        let m2 = (if l \<le> 1/2 then fmul l (fadd 1 s) else fsub (fadd l s) (fmul l s));
            m1 = fsub (fmul 2 l) m2
        in (v_hls m1 m2 (fadd h ONE_THIRD), v_hls m1 m2 h, v_hls m1 m2 (fsub h ONE_THIRD)))"

subsection \<open>Colour harmony (\<^verbatim>\<open>ColorHarmonyService\<close>)\<close>

definition rgb_to_hsl :: "rgb \<Rightarrow> real \<times> real \<times> real" where
  "rgb_to_hsl c =
     (case c of (r0, g0, b0) \<Rightarrow>
        case rgb_to_hls (fdiv (of_int r0) 255) (fdiv (of_int g0) 255) (fdiv (of_int b0) 255) of
          (h, l, s) \<Rightarrow> (fmul h 360, fmul s 100, fmul l 100))"

definition hsl_to_rgb :: "real \<times> real \<times> real \<Rightarrow> rgb" where
  "hsl_to_rgb hsl =
     (case hsl of (h0, s0, l0) \<Rightarrow>
        case hls_to_rgb (fdiv h0 360) (fdiv l0 100) (fdiv s0 100) of
          (r, g, b) \<Rightarrow> (py_int (fmul r 255), py_int (fmul g 255), py_int (fmul b 255)))"

definition get_complementary :: "rgb \<Rightarrow> rgb" where
  "get_complementary c =
     (case rgb_to_hsl c of (h, s, l) \<Rightarrow> hsl_to_rgb (py_mod (fadd h 180) 360, s, l))"

definition get_analogous :: "rgb \<Rightarrow> rgb list" where
  "get_analogous c =
     (case rgb_to_hsl c of (h, s, l) \<Rightarrow>
        map (\<lambda>offset. hsl_to_rgb (py_mod (fadd h offset) 360, s, l)) [- 30, 30])"

definition get_triadic :: "rgb \<Rightarrow> rgb list" where
  "get_triadic c =
     (case rgb_to_hsl c of (h, s, l) \<Rightarrow>
        map (\<lambda>offset. hsl_to_rgb (py_mod (fadd h offset) 360, s, l)) [120, 240])"

text \<open>
  The hue difference both \<^verbatim>\<open>calculate_harmony_score\<close> and \<^verbatim>\<open>colors_match\<close> compute:
  \<^verbatim>\<open>h_diff = abs(h1 - h2); if h_diff > 180: h_diff = 360 - h_diff\<close>.
\<close>

definition h_diff :: "real \<Rightarrow> real \<Rightarrow> real" where
  "h_diff h1 h2 = (let d = \<bar>fsub h1 h2\<bar> in if 180 < d then fsub 360 d else d)"

text \<open>The body of the inner loop of \<^verbatim>\<open>calculate_harmony_score\<close>, and the two loops.\<close>

definition harmony_step :: "real \<Rightarrow> real \<times> real \<times> real \<Rightarrow> real \<times> real \<times> real \<Rightarrow> real" where
  "harmony_step score c1 c2 =
     (let d = h_diff (fst c1) (fst c2) in
      if 165 \<le> d \<and> d \<le> 195 then fadd score 10
      else if d \<le> 45 then fadd score 5
      else if 105 \<le> d \<and> d \<le> 135 then fadd score 8
      else if 60 \<le> d \<and> d \<le> 90 then fsub score 15
      else score)"

fun harmony_inner ::
  "real \<Rightarrow> real \<times> real \<times> real \<Rightarrow> (real \<times> real \<times> real) list \<Rightarrow> real" where
  "harmony_inner score c1 [] = score"
| "harmony_inner score c1 (c2 # cs) = harmony_inner (harmony_step score c1 c2) c1 cs"

fun harmony_outer :: "real \<Rightarrow> (real \<times> real \<times> real) list \<Rightarrow> real" where
  "harmony_outer score [] = score"
| "harmony_outer score (c1 # cs) = harmony_outer (harmony_inner score c1 cs) cs"

definition calculate_harmony_score :: "rgb list \<Rightarrow> real" where
  "calculate_harmony_score colors =
     (if length colors < 2 then 100
      else max 0 (min 100 (harmony_outer 100 (map rgb_to_hsl colors))))"

definition colors_match :: "rgb \<Rightarrow> rgb \<Rightarrow> string \<Rightarrow> real \<Rightarrow> bool" where
  "colors_match rgb1 rgb2 scheme tolerance =
     (let d = h_diff (fst (rgb_to_hsl rgb1)) (fst (rgb_to_hsl rgb2)) in
      if scheme = ''complementary'' then \<bar>fsub d 180\<bar> \<le> tolerance
      else if scheme = ''analogous'' then d \<le> tolerance
      else if scheme = ''triadic'' then
        \<bar>fsub d 120\<bar> \<le> tolerance \<or> \<bar>fsub d 240\<bar> \<le> tolerance
      else if scheme = ''monochromatic'' then d \<le> 15
      else True)"

text \<open>Clamping a score to \<open>[0, 100]\<close>.\<close>

definition clamp_0_100 :: "real \<Rightarrow> real" where
  "clamp_0_100 x = (if x < 0 then 0 else if 100 < x then 100 else x)"

subsection \<open>Colour harmony as the specification words it\<close>

text \<open>
  The circular hue difference \<open>d = min(|h1 - h2|, 360 - |h1 - h2|)\<close> of two hues, the
  adjustment a pair of colours earns, the unordered pairs of a list, and the harmony score:
  100 for fewer than two colours, otherwise 100 plus the adjustment of every unordered pair,
  clamped to \<open>[0, 100]\<close>. The arithmetic is that of floats.
\<close>

definition hue :: "rgb \<Rightarrow> real" where
  "hue c = fst (rgb_to_hsl c)"

definition hue_difference :: "real \<Rightarrow> real \<Rightarrow> real" where
  "hue_difference h1 h2 = min \<bar>fsub h1 h2\<bar> (fsub 360 \<bar>fsub h1 h2\<bar>)"

definition harmony_adjustment :: "real \<Rightarrow> real" where
  "harmony_adjustment d =
     (if 165 \<le> d \<and> d \<le> 195 then 10
      else if d \<le> 45 then 5
      else if 105 \<le> d \<and> d \<le> 135 then 8
      else if 60 \<le> d \<and> d \<le> 90 then - 15
      else 0)"

fun unordered_pairs :: "'a list \<Rightarrow> ('a \<times> 'a) list" where
  "unordered_pairs [] = []"
| "unordered_pairs (x # xs) = map (Pair x) xs @ unordered_pairs xs"

definition harmonyScore :: "rgb list \<Rightarrow> real" where
  "harmonyScore colors =
     (if length colors < 2 then 100
      else clamp_0_100
        (foldl (\<lambda>score p. fadd score (harmony_adjustment (hue_difference (hue (fst p)) (hue (snd p)))))
           100 (unordered_pairs colors)))"

subsection \<open>Style compatibility (\<^verbatim>\<open>OutfitGeneratorService.check_style_compatibility\<close>)\<close>

definition compatible_pairs :: "(ClothingStyle \<times> ClothingStyle) list" where
  "compatible_pairs =
     [(CASUAL, STREETWEAR), (FORMAL, BUSINESS), (EVENING, FORMAL),
      (BOHEMIAN, CASUAL), (SPORTY, CASUAL), (VINTAGE, BOHEMIAN)]"

text \<open>The body of the loop \<^verbatim>\<open>for s1, s2 in zip(styles, styles[1:])\<close>, and the loop.\<close>

definition style_step :: "real \<Rightarrow> ClothingStyle \<times> ClothingStyle \<Rightarrow> real" where
  "style_step score p =
     (case p of (s1, s2) \<Rightarrow>
        if s1 = s2 then fadd score 10
        else if List.member compatible_pairs (s1, s2) \<or> List.member compatible_pairs (s2, s1)
          then fadd score 5
        else fsub score 10)"

fun style_loop :: "real \<Rightarrow> (ClothingStyle \<times> ClothingStyle) list \<Rightarrow> real" where
  "style_loop score [] = score"
| "style_loop score (p # ps) = style_loop (style_step score p) ps"

definition check_style_compatibility :: "ClothingItem list \<Rightarrow> real" where
  "check_style_compatibility items =
     (if items = [] then 0
      else let styles = map style items in
        if length (remdups styles) = 1 then 100
        else max 0 (min 100 (style_loop 50 (zip styles (tl styles)))))"

subsection \<open>Outfit generation (\<^verbatim>\<open>OutfitGeneratorService\<close>)\<close>

definition OUTFIT_COMBINATIONS :: "ClothingCategory list list" where
  "OUTFIT_COMBINATIONS =
     [[TOP, BOTTOM],
      [TOP, BOTTOM, SHOES],
      [TOP, BOTTOM, OUTERWEAR],
      [TOP, BOTTOM, OUTERWEAR, SHOES],
      [DRESS],
      [DRESS, SHOES],
      [DRESS, OUTERWEAR],
      [DRESS, OUTERWEAR, SHOES]]"

definition get_dominant_rgb :: "ClothingItem \<Rightarrow> rgb option" where
  "get_dominant_rgb item =
     (case dominant_colors item of [] \<Rightarrow> None | c # _ \<Rightarrow> Some (rgb c))"

text \<open>
  \<^verbatim>\<open>calculate_outfit_harmony\<close> collects the dominant colours of the items that have one
  (\<^verbatim>\<open>if rgb:\<close> is false only for \<^verbatim>\<open>None\<close>: a triple is never empty).
\<close>

definition calculate_outfit_harmony :: "ClothingItem list \<Rightarrow> real" where
  "calculate_outfit_harmony items =
     (let colors = List.map_filter get_dominant_rgb items in
      if length colors < 2 then 100 else calculate_harmony_score colors)"

text \<open>
  An optional string argument is taken (\<^verbatim>\<open>if color_scheme:\<close>, \<^verbatim>\<open>if base_item_id:\<close>) when
  it is neither \<^verbatim>\<open>None\<close> nor empty.
\<close>

definition given :: "string option \<Rightarrow> bool" where
  "given a = (case a of None \<Rightarrow> False | Some s \<Rightarrow> s \<noteq> [])"

text \<open>
  The dictionary a suggestion is returned as. The entry \<^verbatim>\<open>'items'\<close>, here
  \<open>suggestion_items\<close>, holds the items themselves (the code stores
  \<^verbatim>\<open>item.model_dump()\<close>, the same data as a dictionary) and \<^verbatim>\<open>'pattern'\<close> the
  categories (the code stores their string values).
\<close>

record Suggestion =
  suggestion_items :: "ClothingItem list"
  color_harmony_score :: real
  style_compatibility_score :: real
  total_score :: real
  pattern :: "ClothingCategory list"

text \<open>
  The body shared by the two generators: the scores of one tuple of items and the
  dictionary appended to \<^verbatim>\<open>suggestions\<close>. The literals \<^verbatim>\<open>0.6\<close> and \<^verbatim>\<open>0.4\<close> are the floats
  nearest to these decimals.
\<close>

definition make_suggestion :: "ClothingItem list \<Rightarrow> ClothingCategory list \<Rightarrow> Suggestion" where
  "make_suggestion outfit_items pat =
     (let harmony_score = calculate_outfit_harmony outfit_items;
          style_score = check_style_compatibility outfit_items;
          total = fadd (fmul harmony_score (fl (6/10))) (fmul style_score (fl (4/10)))
      in \<lparr>suggestion_items = outfit_items,
          color_harmony_score = py_round2 harmony_score,
          style_compatibility_score = py_round2 style_score,
          total_score = py_round2 total,
          pattern = pat\<rparr>)"

text \<open>\<^verbatim>\<open>itertools.product(*lists)\<close>: all tuples, the last list varying fastest.\<close>

fun itertools_product :: "'a list list \<Rightarrow> 'a list list" where
  "itertools_product [] = [[]]"
| "itertools_product (xs # xss) =
     concat (map (\<lambda>x. map ((#) x) (itertools_product xss)) xs)"

text \<open>
  The dictionary \<^verbatim>\<open>items_by_category\<close>, built item by item: a new key starts a list, and
  the item is appended to the list of its category.
\<close>

definition group_step ::
  "(ClothingCategory \<rightharpoonup> ClothingItem list) \<Rightarrow> ClothingItem
     \<Rightarrow> (ClothingCategory \<rightharpoonup> ClothingItem list)" where
  "group_step d item =
     d(category item \<mapsto> (case d (category item) of None \<Rightarrow> [] | Some l \<Rightarrow> l) @ [item])"

definition group_by_category ::
  "ClothingItem list \<Rightarrow> (ClothingCategory \<rightharpoonup> ClothingItem list)" where
  "group_by_category all_items = foldl group_step Map.empty all_items"

text \<open>
  \<^verbatim>\<open>_generate_from_base\<close>. The options of one category, narrowed by the colour scheme
  against the base colour when both are there; an empty narrowing is dropped
  (\<^verbatim>\<open>if filtered: options = filtered\<close>). \<^verbatim>\<open>colors_match\<close> is called with its default
  tolerance 30.
\<close>

definition narrow_options ::
  "rgb option \<Rightarrow> string option \<Rightarrow> ClothingItem list \<Rightarrow> ClothingItem list" where
  "narrow_options base_rgb color_scheme options =
     (case base_rgb of
        Some b \<Rightarrow>
          if given color_scheme then
            let filtered = filter (\<lambda>item.
                  case get_dominant_rgb item of
                    None \<Rightarrow> False
                  | Some item_rgb \<Rightarrow> colors_match b item_rgb (the color_scheme) 30) options
            in if filtered \<noteq> [] then filtered else options
          else options
      | None \<Rightarrow> options)"

definition category_options ::
  "(ClothingCategory \<rightharpoonup> ClothingItem list) \<Rightarrow> rgb option \<Rightarrow> string option
     \<Rightarrow> ClothingCategory list \<Rightarrow> ClothingItem list list" where
  "category_options items_by_category base_rgb color_scheme other_categories =
     List.map_filter (\<lambda>cat.
        case items_by_category cat of
          None \<Rightarrow> None
        | Some options \<Rightarrow> Some (narrow_options base_rgb color_scheme options))
       other_categories"

definition generate_for_pattern ::
  "ClothingItem \<Rightarrow> (ClothingCategory \<rightharpoonup> ClothingItem list) \<Rightarrow> string option
     \<Rightarrow> ClothingCategory list \<Rightarrow> Suggestion list" where
  "generate_for_pattern base_item items_by_category color_scheme pat =
     (let other_categories = filter (\<lambda>c. c \<noteq> category base_item) pat;
          options = category_options items_by_category (get_dominant_rgb base_item)
                      color_scheme other_categories
      in if length options = length other_categories
         then map (\<lambda>combo. make_suggestion (base_item # combo) pat) (itertools_product options)
         else [])"

definition generate_from_base ::
  "ClothingItem \<Rightarrow> (ClothingCategory \<rightharpoonup> ClothingItem list) \<Rightarrow> string option
     \<Rightarrow> Suggestion list" where
  "generate_from_base base_item items_by_category color_scheme =
     (let valid_patterns = filter (\<lambda>pat. category base_item \<in> set pat) OUTFIT_COMBINATIONS
      in concat (map (generate_for_pattern base_item items_by_category color_scheme)
                   valid_patterns))"

text \<open>
  \<^verbatim>\<open>_generate_all_combinations\<close>. The colour-scheme filter on one tuple: the dominant
  colours of the items that have one, and a check of the first two of them when there are
  two; \<open>True\<close> when the tuple goes on to be scored, \<open>False\<close> for \<^verbatim>\<open>continue\<close>.
\<close>

definition passes_color_scheme :: "string option \<Rightarrow> ClothingItem list \<Rightarrow> bool" where
  "passes_color_scheme color_scheme outfit_items =
     (if given color_scheme then
        (case List.map_filter get_dominant_rgb outfit_items of
           c0 # c1 # _ \<Rightarrow> colors_match c0 c1 (the color_scheme) 30
         | _ \<Rightarrow> True)
      else True)"

definition generate_all_for_pattern ::
  "(ClothingCategory \<rightharpoonup> ClothingItem list) \<Rightarrow> string option
     \<Rightarrow> ClothingCategory list \<Rightarrow> Suggestion list" where
  "generate_all_for_pattern items_by_category color_scheme pat =
     (if list_all (\<lambda>cat. items_by_category cat \<noteq> None) pat then
        map (\<lambda>combo. make_suggestion combo pat)
          (filter (passes_color_scheme color_scheme)
             (itertools_product (map (\<lambda>cat. the (items_by_category cat)) pat)))
      else [])"

definition generate_all_combinations ::
  "(ClothingCategory \<rightharpoonup> ClothingItem list) \<Rightarrow> string option \<Rightarrow> Suggestion list" where
  "generate_all_combinations items_by_category color_scheme =
     concat (map (generate_all_for_pattern items_by_category color_scheme) OUTFIT_COMBINATIONS)"

text \<open>
  \<^verbatim>\<open>list.sort(key=..., reverse=True)\<close> sorts into descending order of the keys and keeps
  items of equal keys in their original order; it is modelled by the stable insertion sort
  of the library on the negated key. \<^verbatim>\<open>xs[:k]\<close> is the slice of Python, which counts a
  negative \<open>k\<close> from the end.
\<close>

definition sort_reverse :: "('a \<Rightarrow> real) \<Rightarrow> 'a list \<Rightarrow> 'a list" where
  "sort_reverse key xs = sort_key (\<lambda>x. - key x) xs"

definition slice_to :: "'a list \<Rightarrow> int \<Rightarrow> 'a list" where
  "slice_to xs k = (if 0 \<le> k then take (nat k) xs else take (nat (int (length xs) + k)) xs)"

text \<open>
  \<^verbatim>\<open>generate_outfit_suggestions\<close>. \<open>storage\<close> is what \<^verbatim>\<open>storage.get_all_clothing()\<close>
  returns, and \<open>request_items\<close> the items of the request after
  \<^verbatim>\<open>_convert_items_from_request\<close> has made \<^verbatim>\<open>ClothingItem\<close>s of them. \<open>selected_items\<close> is
  \<^verbatim>\<open>all_items\<close> before the style filter, \<open>filter_by_style\<close> the style filter with its fall
  back, and \<open>all_suggestions\<close> the list \<^verbatim>\<open>suggestions\<close> before it is sorted.
\<close>

definition selected_items :: "ClothingItem list \<Rightarrow> ClothingItem list option \<Rightarrow> ClothingItem list" where
  "selected_items storage request_items =
     (case request_items of
        None \<Rightarrow> storage
      | Some l \<Rightarrow> if l \<noteq> [] then l else storage)"

definition filter_by_style :: "ClothingStyle option \<Rightarrow> ClothingItem list \<Rightarrow> ClothingItem list" where
  "filter_by_style style_opt all_items =
     (case style_opt of
        None \<Rightarrow> all_items
      | Some st \<Rightarrow>
          let filtered_items = filter (\<lambda>item. style item = st) all_items
          in if filtered_items \<noteq> [] then filtered_items else all_items)"

definition all_suggestions ::
  "ClothingItem list \<Rightarrow> string option \<Rightarrow> string option \<Rightarrow> Suggestion list" where
  "all_suggestions all_items base_item_id color_scheme =
     (let items_by_category = group_by_category all_items in
      if given base_item_id then
        (case find (\<lambda>item. item_id item = the base_item_id) all_items of
           Some base_item \<Rightarrow> generate_from_base base_item items_by_category color_scheme
         | None \<Rightarrow> [])
      else generate_all_combinations items_by_category color_scheme)"

definition generate_outfit_suggestions ::
  "ClothingItem list \<Rightarrow> ClothingItem list option \<Rightarrow> string option \<Rightarrow> ClothingStyle option
     \<Rightarrow> string option \<Rightarrow> int \<Rightarrow> Suggestion list" where
  "generate_outfit_suggestions storage request_items base_item_id style_opt color_scheme
       max_suggestions =
     (let all_items = selected_items storage request_items in
      if all_items = [] then []
      else
        slice_to
          (sort_reverse total_score
             (all_suggestions (filter_by_style style_opt all_items) base_item_id color_scheme))
          max_suggestions)"

subsection \<open>The style score as the specification words it\<close>

text \<open>
  The symmetric compatibility table, the pairs of neighbours of a list, and the score:
  100 when all items share one style, otherwise 50 adjusted along the neighbouring pairs
  in list order and clamped to \<open>[0, 100]\<close>.
\<close>

definition compatible_styles :: "ClothingStyle \<Rightarrow> ClothingStyle \<Rightarrow> bool" where
  "compatible_styles a b \<longleftrightarrow>
     {a, b} = {CASUAL, STREETWEAR} \<or> {a, b} = {FORMAL, BUSINESS} \<or>
     {a, b} = {EVENING, FORMAL} \<or> {a, b} = {BOHEMIAN, CASUAL} \<or>
     {a, b} = {SPORTY, CASUAL} \<or> {a, b} = {VINTAGE, BOHEMIAN}"

fun adjacent_pairs :: "'a list \<Rightarrow> ('a \<times> 'a) list" where
  "adjacent_pairs (x # y # xs) = (x, y) # adjacent_pairs (y # xs)"
| "adjacent_pairs xs = []"

definition style_adjustment :: "ClothingStyle \<times> ClothingStyle \<Rightarrow> real" where
  "style_adjustment p =
     (if fst p = snd p then 10 else if compatible_styles (fst p) (snd p) then 5 else - 10)"

definition share_one_style :: "ClothingItem list \<Rightarrow> bool" where
  "share_one_style items \<longleftrightarrow> (\<exists>s. \<forall>i \<in> set items. style i = s)"

definition styleScore :: "ClothingItem list \<Rightarrow> real" where
  "styleScore items =
     (if share_one_style items then 100
      else clamp_0_100
        (foldl (\<lambda>score p. fadd score (style_adjustment p)) 50
           (adjacent_pairs (map style items))))"

subsection \<open>Representable numbers\<close>

text \<open>A real is a float when rounding leaves it unchanged.\<close>

definition is_float :: "real \<Rightarrow> bool" where
  "is_float x \<longleftrightarrow> fl x = x"

subsection \<open>Colour extraction (\<^verbatim>\<open>ColorExtractionService\<close>)\<close>

type_synonym rgba = "int \<times> int \<times> int \<times> int"

text \<open>\<^verbatim>\<open>rgb_to_hex\<close>: each channel is formatted with \<^verbatim>\<open>{:02x}\<close>.\<close>

fun hex_digits :: "nat \<Rightarrow> string" where
  "hex_digits n =
     (if n < 16 then [''0123456789abcdef'' ! n]
      else hex_digits (n div 16) @ [''0123456789abcdef'' ! (n mod 16)])"

definition format_02x :: "int \<Rightarrow> string" where
  "format_02x v =
     (let digits = hex_digits (nat \<bar>v\<bar>);
          sign = (if v < 0 then ''-'' else [])
      in sign @ replicate (2 - length sign - length digits) CHR ''0'' @ digits)"

definition rgb_to_hex :: "rgb \<Rightarrow> string" where
  "rgb_to_hex c = (case c of (r, g, b) \<Rightarrow> ''#'' @ format_02x r @ format_02x g @ format_02x b)"

text \<open>
  \<^verbatim>\<open>color_distance\<close>. An integer meeting a float is converted (rounded) first;
  \<^verbatim>\<open>math.sqrt\<close> is the correctly rounded square root.
\<close>

definition color_distance :: "rgb \<Rightarrow> rgb \<Rightarrow> real" where
  "color_distance c1 c2 =
     (case c1 of (r1, g1, b1) \<Rightarrow> case c2 of (r2, g2, b2) \<Rightarrow>
        let rmean = fdiv (of_int (r1 + r2)) 2;
            dr = r1 - r2;
            dg = g1 - g2;
            db = b1 - b2
        in fl (sqrt
             (fadd
                (fadd (fmul (fadd 2 (fdiv rmean 256)) (fl (of_int (dr ^ 2))))
                      (fl (of_int (4 * dg ^ 2))))
                (fmul (fadd 2 (fdiv (fsub 255 rmean) 256)) (fl (of_int (db ^ 2)))))))"

definition is_background_color :: "rgb \<Rightarrow> bool" where
  "is_background_color c =
     (case c of (r, g, b) \<Rightarrow>
        if 240 < r \<and> 240 < g \<and> 240 < b then True
        else if r < 15 \<and> g < 15 \<and> b < 15 then True
        else if 230 < r \<and> 230 < g \<and> 230 < b then True
        else False)"

text \<open>
  The loop of \<^verbatim>\<open>_filter_background_from_image\<close> over the pixels of the image converted to
  RGBA and resized to 150 by 150.
\<close>

definition filter_background :: "rgba list \<Rightarrow> rgb list" where
  "filter_background pixels =
     List.map_filter (\<lambda>pixel.
        case pixel of (r, g, b, a) \<Rightarrow>
          if a < 128 then None
          else if \<not> is_background_color (r, g, b) then Some (r, g, b)
          else None) pixels"

text \<open>
  What \<^verbatim>\<open>extract_colors\<close> obtains from the libraries it calls (PIL, ColorThief,
  webcolors): the RGBA data of the image resized to 150 by 150 (\<open>None\<close> when the file cannot
  be read), the palette ColorThief extracts from the image file and from the square image
  written from a list of pixels (\<open>None\<close> when it raises), and the name of a colour.
\<close>

record imaging =
  resized_pixels :: "rgba list option"
  original_palette :: "int \<Rightarrow> rgb list option"
  square_palette :: "rgb list \<Rightarrow> int \<Rightarrow> rgb list option"
  get_color_name :: "rgb \<Rightarrow> string"

datatype error = ValueError

text \<open>
  The loop \<^verbatim>\<open>while len(valid_pixels) < needed_pixels: valid_pixels.extend(...)\<close>. It is
  entered with at least 100 pixels; on an empty list, where the loop of the code would not
  end, the function returns the list.
\<close>

function pad_pixels :: "'a list \<Rightarrow> nat \<Rightarrow> 'a list" where
  "pad_pixels xs needed =
     (if length xs < needed \<and> xs \<noteq> []
      then pad_pixels (xs @ take (needed - length xs) xs) needed
      else xs)"
  by pat_completeness auto
termination
  by (relation "measure (\<lambda>(xs, needed). needed - length xs)")
     (auto simp: min_def neq_Nil_conv)

declare pad_pixels.simps [simp del]

text \<open>
  The index of the palette entry nearest to a pixel: the first entry of least distance,
  index 0 for an empty palette. \<open>None\<close> stands for the initial \<^verbatim>\<open>float('inf')\<close>.
\<close>

definition closest_step ::
  "rgb \<Rightarrow> real option \<times> nat \<Rightarrow> nat \<times> rgb \<Rightarrow> real option \<times> nat" where
  "closest_step pixel acc entry =
     (case acc of (min_dist, closest_idx) \<Rightarrow> case entry of (idx, p_color) \<Rightarrow>
        let dist = color_distance pixel p_color in
        if (case min_dist of None \<Rightarrow> True | Some m \<Rightarrow> dist < m)
        then (Some dist, idx) else (min_dist, closest_idx))"

definition closest_index :: "rgb \<Rightarrow> rgb list \<Rightarrow> nat" where
  "closest_index pixel palette = snd (foldl (closest_step pixel) (None, 0) (enumerate 0 palette))"

text \<open>
  The counting loop. \<^verbatim>\<open>color_counts\<close> has the keys \<open>0, ..., len(filtered_palette) - 1\<close>
  and is a list here; \<^verbatim>\<open>color_counts[closest_idx] += 1\<close> raises \<^verbatim>\<open>KeyError\<close> on any other
  index, which \<^verbatim>\<open>extract_colors\<close> turns into \<^verbatim>\<open>ValueError\<close>.
\<close>

fun count_pixels :: "rgb list \<Rightarrow> rgb list \<Rightarrow> nat list \<Rightarrow> error + nat list" where
  "count_pixels palette [] color_counts = Inr color_counts"
| "count_pixels palette (pixel # pixels) color_counts =
     (let closest_idx = closest_index pixel palette in
      if closest_idx < length color_counts
      then count_pixels palette pixels
             (color_counts[closest_idx := color_counts ! closest_idx + 1])
      else Inl ValueError)"

definition color_info :: "imaging \<Rightarrow> nat \<Rightarrow> rgb \<Rightarrow> nat \<Rightarrow> ColorInfo" where
  "color_info env total_pixels c count_c =
     \<lparr>hex = rgb_to_hex c, rgb = c, name = get_color_name env c,
      percentage = py_round2 (fmul (fdiv (of_int (int count_c)) (of_int (int total_pixels))) 100)\<rparr>"

text \<open>
  \<^verbatim>\<open>extract_colors\<close> from the palette on: the palette without background colours (the whole
  palette when nothing else is left), the counts, the percentages, the sort and the cut.
\<close>

definition colors_of_palette ::
  "imaging \<Rightarrow> rgb list \<Rightarrow> rgb list \<Rightarrow> int \<Rightarrow> error + ColorInfo list" where
  "colors_of_palette env valid_pixels palette num_colors =
     (let filtered = filter (\<lambda>c. \<not> is_background_color c) palette;
          filtered_palette = (if filtered = [] then palette else filtered);
          total_pixels = (if valid_pixels \<noteq> [] then length valid_pixels else 1)
      in case count_pixels filtered_palette valid_pixels (replicate (length filtered_palette) 0) of
           Inl e \<Rightarrow> Inl e
         | Inr color_counts \<Rightarrow>
             Inr (slice_to
                    (sort_reverse percentage
                       (map (\<lambda>(c, n). color_info env total_pixels c n)
                          (zip filtered_palette color_counts)))
                    num_colors))"

text \<open>
  \<^verbatim>\<open>extract_colors\<close>. Background removal by \<^verbatim>\<open>rembg\<close> is switched off
  (\<^verbatim>\<open>USE_REMBG = False\<close>), so the pixels come from \<^verbatim>\<open>_filter_background_from_image\<close>.
  Any exception becomes \<^verbatim>\<open>ValueError\<close>.
\<close>

definition extract_colors :: "imaging \<Rightarrow> int \<Rightarrow> error + ColorInfo list" where
  "extract_colors env num_colors =
     (case resized_pixels env of
        None \<Rightarrow> Inl ValueError
      | Some pixels \<Rightarrow>
          let valid_pixels = filter_background pixels in
          if length valid_pixels < 100 then
            (case original_palette env num_colors of
               None \<Rightarrow> Inl ValueError
             | Some palette \<Rightarrow> colors_of_palette env valid_pixels palette num_colors)
          else
            let size0 = py_int (fl (sqrt (of_int (int (length valid_pixels)))));
                size = (if size0 < 10 then 10 else size0);
                needed_pixels = nat (size * size);
                valid_pixels = (if needed_pixels < length valid_pixels
                                then take needed_pixels valid_pixels
                                else pad_pixels valid_pixels needed_pixels)
            in case square_palette env (take needed_pixels valid_pixels) num_colors of
                 None \<Rightarrow> Inl ValueError
               | Some palette \<Rightarrow> colors_of_palette env valid_pixels palette num_colors)"

text \<open>An image of two red pixels and a white one, whose palette is red and blue.\<close>

definition red_image :: imaging where
  "red_image =
     \<lparr>resized_pixels = Some [(255, 0, 0, 255), (255, 255, 255, 255), (255, 0, 0, 255)],
      original_palette = (\<lambda>n. Some [(0, 0, 255), (255, 0, 0)]),
      square_palette = (\<lambda>pixels n. None),
      get_color_name = (\<lambda>c. if c = (255, 0, 0) then ''red'' else ''blue'')\<rparr>"

subsection \<open>Sorting as the specification words it\<close>

text \<open>
  \<open>ys\<close> is \<open>xs\<close> sorted stably into descending order of \<open>key\<close>: the keys descend along
  \<open>ys\<close>, and for every key value the items of that value are the same in \<open>ys\<close> as in \<open>xs\<close>, in
  the same order (so \<open>ys\<close> is a rearrangement of \<open>xs\<close> that keeps ties in generation order).
\<close>

definition stable_descending :: "('a \<Rightarrow> real) \<Rightarrow> 'a list \<Rightarrow> 'a list \<Rightarrow> bool" where
  "stable_descending key xs ys \<longleftrightarrow>
     sorted_wrt (\<lambda>a b. key b \<le> key a) ys \<and>
     (\<forall>v. filter (\<lambda>x. key x = v) ys = filter (\<lambda>x. key x = v) xs)"

text \<open>The list of candidates that \<^verbatim>\<open>generate_outfit_suggestions\<close> sorts and cuts.\<close>

definition candidates ::
  "ClothingItem list \<Rightarrow> ClothingItem list option \<Rightarrow> string option \<Rightarrow> ClothingStyle option
     \<Rightarrow> string option \<Rightarrow> Suggestion list" where
  "candidates storage request_items base_item_id style_opt color_scheme =
     all_suggestions (filter_by_style style_opt (selected_items storage request_items))
       base_item_id color_scheme"

subsection \<open>Concrete garments\<close>

text \<open>Garments without colour data, and garments whose dominant colour is pure red or green.\<close>

definition casual_top :: ClothingItem where
  "casual_top = \<lparr>item_id = ''t1'', item_name = ''tee'', category = TOP, style = CASUAL,
     image_path = '''', dominant_colors = [], tags = []\<rparr>"

definition streetwear_bottom :: ClothingItem where
  "streetwear_bottom = \<lparr>item_id = ''b1'', item_name = ''cargo'', category = BOTTOM,
     style = STREETWEAR, image_path = '''', dominant_colors = [], tags = []\<rparr>"

definition casual_bottom :: ClothingItem where
  "casual_bottom = \<lparr>item_id = ''b2'', item_name = ''jeans'', category = BOTTOM,
     style = CASUAL, image_path = '''', dominant_colors = [], tags = []\<rparr>"

definition red :: ColorInfo where
  "red = \<lparr>hex = ''#ff0000'', rgb = (255, 0, 0), name = ''red'', percentage = 100\<rparr>"

definition green :: ColorInfo where
  "green = \<lparr>hex = ''#00ff00'', rgb = (0, 255, 0), name = ''lime'', percentage = 100\<rparr>"

definition red_bottom :: ClothingItem where
  "red_bottom = \<lparr>item_id = ''b3'', item_name = ''chinos'', category = BOTTOM,
     style = CASUAL, image_path = '''', dominant_colors = [red], tags = []\<rparr>"

definition red_shoes :: ClothingItem where
  "red_shoes = \<lparr>item_id = ''s1'', item_name = ''sneakers'', category = SHOES,
     style = CASUAL, image_path = '''', dominant_colors = [red], tags = []\<rparr>"

definition green_shoes :: ClothingItem where
  "green_shoes = \<lparr>item_id = ''s2'', item_name = ''trainers'', category = SHOES,
     style = CASUAL, image_path = '''', dominant_colors = [green], tags = []\<rparr>"

subsection \<open>The colour-scheme gate of open mode, on colours\<close>


subsection \<open>Whole scores and candidates\<close>

text \<open>
  A whole score is a whole number between 0 and 100; a suggestion is made when it is the
  dictionary built for some tuple and pattern.
\<close>

definition whole_score :: "real \<Rightarrow> bool" where
  "whole_score x \<longleftrightarrow> x \<in> \<int> \<and> 0 \<le> x \<and> x \<le> 100"

definition made :: "Suggestion \<Rightarrow> bool" where
  "made s \<longleftrightarrow> (\<exists>outfit pat. s = make_suggestion outfit pat)"

subsection \<open>Approximation\<close>

text \<open>
  \<open>near d x y\<close>: the float \<open>x\<close> differs from the exact value \<open>y\<close> by at most \<open>d\<close> units
  of \<open>2^-53\<close>, the rounding error of a number of magnitude 1.
\<close>

definition near :: "real \<Rightarrow> real \<Rightarrow> real \<Rightarrow> bool" where
  "near d x y \<longleftrightarrow> \<bar>x - y\<bar> \<le> d / 2 ^ 53"

subsection \<open>Exact hue, saturation and lightness\<close>







subsection \<open>Matching the base colour\<close>

text \<open>
  The test by which \<^verbatim>\<open>_generate_from_base\<close> narrows the options of a category: the item
  has a dominant colour and it matches the base colour under the scheme.
\<close>

definition matches_base :: "rgb \<Rightarrow> string \<Rightarrow> ClothingItem \<Rightarrow> bool" where
  "matches_base b scheme item =
     (case get_dominant_rgb item of None \<Rightarrow> False | Some c \<Rightarrow> colors_match b c scheme 30)"

subsection \<open>The channel values of an exact round trip\<close>



subsection \<open>The float channels of \<^verbatim>\<open>hsl_to_rgb\<close>\<close>




section \<open>Part II: properties\<close>

subsection \<open>Rounding to binary64\<close>

lemma expo_ge1:
  assumes "1 \<le> y"
  shows "expo y = bitlen \<lfloor>y\<rfloor> - 1" "0 \<le> expo y"
    "2 ^ nat (expo y) \<le> y" "y < 2 ^ nat (expo y + 1)"
proof -
  show e: "expo y = bitlen \<lfloor>y\<rfloor> - 1" using assms by (simp add: expo_def)
  have f: "0 < \<lfloor>y\<rfloor>" using assms by simp
  then show n: "0 \<le> expo y" unfolding e by (simp add: bitlen_alt_def)
  from bitlen_bounds[OF f] have b: "2 ^ nat (expo y) \<le> \<lfloor>y\<rfloor>" "\<lfloor>y\<rfloor> < 2 ^ nat (bitlen \<lfloor>y\<rfloor>)"
    unfolding e by simp_all
  have "(2::real) ^ nat (expo y) = of_int (2 ^ nat (expo y))" by simp
  also have "\<dots> \<le> of_int \<lfloor>y\<rfloor>" using b(1) by (simp only: of_int_le_iff)
  also have "\<dots> \<le> y" by simp
  finally show "2 ^ nat (expo y) \<le> y" .
  have "nat (bitlen \<lfloor>y\<rfloor>) = nat (expo y + 1)" unfolding e by simp
  then have "\<lfloor>y\<rfloor> + 1 \<le> 2 ^ nat (expo y + 1)" using b(2) by simp
  then have "of_int (\<lfloor>y\<rfloor> + 1) \<le> (of_int (2 ^ nat (expo y + 1)) :: real)"
    by (simp only: of_int_le_iff)
  then have "of_int \<lfloor>y\<rfloor> + 1 \<le> (2::real) ^ nat (expo y + 1)" by simp
  moreover have "y < of_int \<lfloor>y\<rfloor> + 1" by linarith
  ultimately show "y < 2 ^ nat (expo y + 1)" by linarith
qed

lemma expo_lt1:
  assumes "0 < y" "y < 1"
  shows "expo y < 0"
    "1 / 2 ^ nat (- expo y) \<le> y" "y < 1 / 2 ^ nat (- expo y - 1)"
proof -
  define c where "c = \<lceil>1 / y\<rceil> - 1"
  have e: "expo y = - bitlen c" using assms by (simp add: expo_def c_def)
  have z: "1 < 1 / y" using assms by simp
  then have c: "0 < c" unfolding c_def by linarith
  then have k: "0 < bitlen c" by (simp add: bitlen_alt_def)
  then show "expo y < 0" unfolding e by simp
  from bitlen_bounds[OF c] have b: "2 ^ nat (bitlen c - 1) \<le> c" "c < 2 ^ nat (bitlen c)"
    by simp_all
  have "c + 1 \<le> 2 ^ nat (bitlen c)" using b(2) by simp
  then have "of_int (c + 1) \<le> (of_int (2 ^ nat (bitlen c)) :: real)"
    by (simp only: of_int_le_iff)
  moreover have "1 / y \<le> of_int (c + 1)" unfolding c_def by simp
  ultimately have "1 / y \<le> (2::real) ^ nat (bitlen c)" by simp
  then have "1 / 2 ^ nat (bitlen c) \<le> y" using assms(1)
    by (simp add: field_simps)
  then show "1 / 2 ^ nat (- expo y) \<le> y" unfolding e by simp
  have "(of_int (2 ^ nat (bitlen c - 1)) :: real) \<le> of_int c" using b(1)
    by (simp only: of_int_le_iff)
  then have "(2::real) ^ nat (bitlen c - 1) \<le> of_int c" by simp
  moreover have "of_int c < 1 / y" unfolding c_def by linarith
  ultimately have "(2::real) ^ nat (bitlen c - 1) < 1 / y" by linarith
  then have "y < 1 / 2 ^ nat (bitlen c - 1)" using assms(1)
    by (simp add: field_simps)
  then show "y < 1 / 2 ^ nat (- expo y - 1)" unfolding e by simp
qed

lemma expo_bounds:
  assumes "0 < y"
  shows "2 powi expo y \<le> y" and "y < 2 powi (expo y + 1)"
proof -
  show "2 powi expo y \<le> y"
  proof (cases "1 \<le> y")
    case True
    from expo_ge1[OF True] show ?thesis by (simp add: power_int_def)
  next
    case False
    then have "y < 1" by simp
    from expo_lt1[OF assms this] show ?thesis
      by (simp add: power_int_def inverse_eq_divide power_one_over)
  qed
  show "y < 2 powi (expo y + 1)"
  proof (cases "1 \<le> y")
    case True
    from expo_ge1[OF True] show ?thesis by (simp add: power_int_def)
  next
    case False
    then have "y < 1" by simp
    from expo_lt1[OF assms this] have a: "expo y < 0" "y < 1 / 2 ^ nat (- expo y - 1)" by simp_all
    show ?thesis
    proof (cases "expo y = -1")
      case True
      then show ?thesis using \<open>y < 1\<close> by simp
    next
      case False
      then have "expo y + 1 < 0" using a(1) by simp
      moreover have "nat (- (expo y + 1)) = nat (- expo y - 1)" by simp
      ultimately show ?thesis using a(2)
        by (simp add: power_int_def inverse_eq_divide power_one_over)
    qed
  qed
qed

lemma expo_unique:
  assumes "0 < y" "2 powi e \<le> y" "y < 2 powi (e + 1)"
  shows "expo y = e"
proof (rule antisym)
  have "(2::real) powi expo y < 2 powi (e + 1)"
    using expo_bounds(1)[OF assms(1)] assms(3) by linarith
  then have "expo y < e + 1"
    using power_int_increasing[of "e + 1" "expo y" "2::real"] by (cases "expo y < e + 1") auto
  then show "expo y \<le> e" by simp
  have "(2::real) powi e < 2 powi (expo y + 1)"
    using expo_bounds(2)[OF assms(1)] assms(2) by linarith
  then have "e < expo y + 1"
    using power_int_increasing[of "expo y + 1" e "2::real"] by (cases "e < expo y + 1") auto
  then show "e \<le> expo y" by simp
qed

lemma expo_mono:
  assumes "0 < x" "x \<le> y"
  shows "expo x \<le> expo y"
proof -
  have "0 < y" using assms by simp
  have "(2::real) powi expo x < 2 powi (expo y + 1)"
    using expo_bounds(1)[OF assms(1)] expo_bounds(2)[OF \<open>0 < y\<close>] assms(2) by linarith
  then have "expo x < expo y + 1"
    using power_int_increasing[of "expo y + 1" "expo x" "2::real"]
    by (cases "expo x < expo y + 1") auto
  then show ?thesis by simp
qed


lemma rhe_of_int: "rhe (of_int n) = n"
  by (simp add: rhe_def)

lemma rhe_lower: "\<lfloor>x\<rfloor> \<le> rhe x"
  by (simp add: rhe_def Let_def)

lemma rhe_upper: "rhe x \<le> \<lceil>x\<rceil>"
proof (cases "x = of_int \<lfloor>x\<rfloor>")
  case True
  then have "rhe x = \<lfloor>x\<rfloor>" by (metis rhe_of_int)
  then show ?thesis by (simp add: floor_le_ceiling)
next
  case False
  then have "\<lceil>x\<rceil> = \<lfloor>x\<rfloor> + 1" by (simp add: ceiling_altdef)
  then show ?thesis by (simp add: rhe_def Let_def)
qed


lemma rhe_mono:
  assumes "x \<le> y"
  shows "rhe x \<le> rhe y"
proof (cases "\<lfloor>x\<rfloor> = \<lfloor>y\<rfloor>")
  case True
  then show ?thesis using assms by (auto simp: rhe_def Let_def)
next
  case False
  then have "\<lfloor>x\<rfloor> + 1 \<le> \<lfloor>y\<rfloor>" using floor_mono[OF assms] by simp
  moreover have "\<lceil>x\<rceil> \<le> \<lfloor>x\<rfloor> + 1" by (simp add: ceiling_altdef)
  ultimately show ?thesis using rhe_upper[of x] rhe_lower[of y] by linarith
qed

lemma rhe_minus: "rhe (- x) = - rhe x"
proof (cases "x = of_int \<lfloor>x\<rfloor>")
  case True
  then obtain n where n: "x = of_int n" ..
  then have "- x = of_int (- n)" by simp
  then have "rhe (- x) = - n" by (simp only: rhe_of_int)
  then show ?thesis using n by (simp add: rhe_of_int)
next
  case False
  have "\<lfloor>- x\<rfloor> = - \<lceil>x\<rceil>" by (simp add: ceiling_def)
  also have "\<dots> = - \<lfloor>x\<rfloor> - 1" using False by (simp add: ceiling_altdef)
  finally have f: "\<lfloor>- x\<rfloor> = - \<lfloor>x\<rfloor> - 1" .
  define r where "r = x - of_int \<lfloor>x\<rfloor>"
  have r': "- x - of_int (- \<lfloor>x\<rfloor> - 1) = 1 - r" by (simp add: r_def)
  have ev: "even (- \<lfloor>x\<rfloor> - 1) \<longleftrightarrow> odd \<lfloor>x\<rfloor>" by simp
  consider "r < 1 / 2" | "1 / 2 < r" | "r = 1 / 2" by linarith
  then show ?thesis
  proof cases
    case 1
    then show ?thesis unfolding rhe_def Let_def f r' ev r_def[symmetric] by simp
  next
    case 2
    then show ?thesis unfolding rhe_def Let_def f r' ev r_def[symmetric] by simp
  next
    case 3
    then show ?thesis unfolding rhe_def Let_def f r' ev r_def[symmetric] by simp
  qed
qed

lemma ulp_pos: "0 < ulp x"
  by (simp add: ulp_def)

lemma ulp_minus: "ulp (- x) = ulp x"
  by (simp add: ulp_def)

lemma fl_zero: "fl 0 = 0"
  by (simp add: fl_def)

lemma fl_minus: "fl (- x) = - fl x"
  by (simp add: fl_def ulp_minus rhe_minus)

lemma fl_pos_bounds:
  assumes "0 < x"
  shows "2 powi expo x \<le> fl x" "fl x \<le> 2 powi (expo x + 1)"
proof -
  define u :: real where "u = ulp x"
  have u: "0 < u" by (simp add: u_def ulp_pos)
  have ux: "u = 2 powi (expo x - 52)" using assms by (simp add: u_def ulp_def)
  have flx: "fl x = of_int (rhe (x / u)) * u" using assms by (simp add: fl_def u_def)
  have e1: "2 powi expo x = 2 ^ 52 * u"
    unfolding ux by (simp add: power_int_diff)
  have e2: "2 powi (expo x + 1) = 2 ^ 53 * u"
    unfolding ux by (simp add: power_int_diff power_int_add)
  have "2 ^ 52 \<le> x / u" using expo_bounds(1)[OF assms] u unfolding e1
    by (simp add: field_simps)
  then have "rhe (of_int (2 ^ 52)) \<le> rhe (x / u)" by (intro rhe_mono) simp
  then have "2 ^ 52 \<le> rhe (x / u)" unfolding rhe_of_int .
  then have "(of_int (2 ^ 52) :: real) \<le> of_int (rhe (x / u))" by (simp only: of_int_le_iff)
  then have "2 ^ 52 * u \<le> of_int (rhe (x / u)) * u" using u by (intro mult_right_mono) simp_all
  then show "2 powi expo x \<le> fl x" unfolding e1 flx .
  have "x / u \<le> 2 ^ 53" using expo_bounds(2)[OF assms] u unfolding e2
    by (simp add: field_simps)
  then have "rhe (x / u) \<le> rhe (of_int (2 ^ 53))" by (intro rhe_mono) simp
  then have "rhe (x / u) \<le> 2 ^ 53" unfolding rhe_of_int .
  then have "(of_int (rhe (x / u)) :: real) \<le> of_int (2 ^ 53)" by (simp only: of_int_le_iff)
  then have "of_int (rhe (x / u)) * u \<le> 2 ^ 53 * u" using u by (intro mult_right_mono) simp_all
  then show "fl x \<le> 2 powi (expo x + 1)" unfolding e2 flx .
qed

lemma fl_pos: "0 < x \<Longrightarrow> 0 < fl x"
proof -
  assume "0 < x"
  have "0 < (2::real) powi expo x" by simp
  then show ?thesis using fl_pos_bounds(1)[OF \<open>0 < x\<close>] by linarith
qed

lemma fl_nonneg: "0 \<le> x \<Longrightarrow> 0 \<le> fl x"
  using fl_pos[of x] fl_zero by (cases "x = 0") auto

lemma fl_mono_pos:
  assumes "0 < x" "x \<le> y"
  shows "fl x \<le> fl y"
proof -
  have y: "0 < y" using assms by simp
  show ?thesis
  proof (cases "expo x = expo y")
    case True
    define u :: real where "u = ulp x"
    have u: "0 < u" by (simp add: u_def ulp_pos)
    have uy: "ulp y = u" using True assms y by (simp add: u_def ulp_def)
    have "x / u \<le> y / u" using assms u by (simp add: divide_right_mono)
    then have "rhe (x / u) \<le> rhe (y / u)" by (rule rhe_mono)
    then have "(of_int (rhe (x / u)) :: real) \<le> of_int (rhe (y / u))"
      by (simp only: of_int_le_iff)
    then have "of_int (rhe (x / u)) * u \<le> of_int (rhe (y / u)) * u"
      using u by (intro mult_right_mono) simp_all
    then show ?thesis using assms y uy by (simp add: fl_def u_def[symmetric])
  next
    case False
    then have "expo x + 1 \<le> expo y" using expo_mono[OF assms] by simp
    then have "(2::real) powi (expo x + 1) \<le> 2 powi expo y"
      by (intro power_int_increasing) simp_all
    then show ?thesis using fl_pos_bounds(2)[OF assms(1)] fl_pos_bounds(1)[OF y] by linarith
  qed
qed

lemma fl_mono:
  assumes "x \<le> y"
  shows "fl x \<le> fl y"
proof -
  consider "0 < x" | "x \<le> 0" "0 \<le> y" | "y < 0" by linarith
  then show ?thesis
  proof cases
    case 1
    then show ?thesis using fl_mono_pos assms by simp
  next
    case 2
    then have "0 \<le> fl (- x)" by (intro fl_nonneg) simp
    then have "fl x \<le> 0" by (simp add: fl_minus)
    then show ?thesis using fl_nonneg[OF 2(2)] by linarith
  next
    case 3
    then have "fl (- y) \<le> fl (- x)" using assms by (intro fl_mono_pos) simp_all
    then show ?thesis by (simp add: fl_minus)
  qed
qed


lemma fl_exact_pos:
  assumes "0 < m" "m < 2 ^ 53"
  shows "fl (of_int m * 2 powi k) = of_int m * 2 powi k"
proof -
  define b where "b = bitlen m"
  define x :: real where "x = of_int m * 2 powi k"
  have b1: "1 \<le> b" using assms(1) by (simp add: b_def bitlen_alt_def)
  from bitlen_bounds[OF assms(1)] have bb: "2 ^ nat (b - 1) \<le> m" "m < 2 ^ nat b"
    by (simp_all add: b_def)
  have "(2::int) ^ nat (b - 1) < 2 ^ 53" using bb(1) assms(2) by linarith
  then have "nat (b - 1) < 53"
    using power_strict_increasing_iff[of "2::int" "nat (b - 1)" 53] by simp
  then have b53: "b \<le> 53" by simp
  have x: "0 < x" using assms(1) by (simp add: x_def)
  have "(of_int (2 ^ nat (b - 1)) :: real) \<le> of_int m" using bb(1) by (simp only: of_int_le_iff)
  then have lo: "(2::real) powi (b - 1) \<le> of_int m" using b1 by (simp add: power_int_def)
  have "(of_int m :: real) < of_int (2 ^ nat b)" using bb(2) by (simp only: of_int_less_iff)
  then have hi: "of_int m < (2::real) powi b" using b1 by (simp add: power_int_def)
  have "2 powi (b - 1 + k) = (2::real) powi (b - 1) * 2 powi k" by (simp add: power_int_add)
  also have "\<dots> \<le> x" unfolding x_def using lo by (intro mult_right_mono) simp_all
  finally have xlo: "2 powi (b - 1 + k) \<le> x" .
  have "x < (2::real) powi b * 2 powi k" unfolding x_def using hi
    by (intro mult_strict_right_mono) simp_all
  also have "\<dots> = 2 powi (b - 1 + k + 1)" by (simp add: power_int_add)
  finally have xhi: "x < 2 powi (b - 1 + k + 1)" .
  have e: "expo x = b - 1 + k" by (rule expo_unique[OF x xlo xhi])
  have u: "ulp x = 2 powi (b + k - 53)" using x e by (simp add: ulp_def)
  have "x / ulp x = of_int m * (2 powi k / 2 powi (b + k - 53))"
    unfolding u unfolding x_def by simp
  also have "2 powi k / 2 powi (b + k - 53) = (2::real) powi (53 - b)"
    by (simp add: power_int_diff power_int_add field_simps)
  also have "\<dots> = of_int (2 ^ nat (53 - b))" using b53 by (simp add: power_int_def)
  finally have q: "x / ulp x = of_int (m * 2 ^ nat (53 - b))" by simp
  have "fl x = of_int (m * 2 ^ nat (53 - b)) * ulp x"
    using x unfolding fl_def q rhe_of_int by simp
  also have "\<dots> = x / ulp x * ulp x" unfolding q ..
  also have "\<dots> = x" using ulp_pos[of x] by simp
  finally show ?thesis unfolding x_def .
qed

lemma fl_exact:
  assumes "\<bar>m\<bar> \<le> 2 ^ 53"
  shows "fl (of_int m * 2 powi k) = of_int m * 2 powi k"
proof -
  have pos: "fl (of_int n * 2 powi j) = of_int n * 2 powi j" if "0 < n" "n \<le> 2 ^ 53" for n j
  proof (cases "n = 2 ^ 53")
    case True
    have "of_int n * 2 powi j = of_int 1 * (2::real) powi (j + 53)"
      unfolding True by (simp add: power_int_add)
    then show ?thesis using fl_exact_pos[of 1 "j + 53"] by simp
  next
    case False
    then show ?thesis using that by (intro fl_exact_pos) simp_all
  qed
  consider "m = 0" | "0 < m" | "m < 0" by linarith
  then show ?thesis
  proof cases
    case 1
    then show ?thesis by (simp add: fl_zero)
  next
    case 2
    then show ?thesis using pos[of m k] assms by simp
  next
    case 3
    then have "fl (of_int (- m) * 2 powi k) = of_int (- m) * 2 powi k"
      using assms by (intro pos) simp_all
    then show ?thesis by (simp add: fl_minus)
  qed
qed

lemma fl_of_int:
  assumes "\<bar>n\<bar> \<le> 2 ^ 53"
  shows "fl (of_int n) = of_int n"
  using fl_exact[OF assms, of 0] by simp

lemma fl_idem: "fl (fl x) = fl x"
proof -
  have pos: "fl (fl y) = fl y" if y: "0 < y" for y
  proof -
    define u where "u = ulp y"
    have uy: "u = 2 powi (expo y - 52)" using y by (simp add: u_def ulp_def)
    have f: "fl y = of_int (rhe (y / u)) * 2 powi (expo y - 52)"
      using y by (simp add: fl_def u_def[symmetric]) (simp add: uy)
    have "fl y \<le> 2 powi (expo y + 1)" by (rule fl_pos_bounds(2)[OF y])
    also have "\<dots> = 2 ^ 53 * u" unfolding uy by (simp add: power_int_diff power_int_add)
    finally have "of_int (rhe (y / u)) * u \<le> 2 ^ 53 * u" unfolding f uy .
    then have "(of_int (rhe (y / u)) :: real) \<le> 2 ^ 53"
      using ulp_pos[of y] unfolding u_def by simp
    then have hi: "rhe (y / u) \<le> 2 ^ 53"
      by (metis of_int_le_iff of_int_numeral of_int_power)
    have "0 < fl y" by (rule fl_pos[OF y])
    then have "0 < of_int (rhe (y / u)) * u" unfolding f uy .
    then have "(0::real) < of_int (rhe (y / u))"
      using ulp_pos[of y] unfolding u_def by (simp add: zero_less_mult_iff)
    then have "0 < rhe (y / u)" by simp
    then have "\<bar>rhe (y / u)\<bar> \<le> 2 ^ 53" using hi by simp
    from fl_exact[OF this] show ?thesis unfolding f .
  qed
  consider "x = 0" | "0 < x" | "x < 0" by linarith
  then show ?thesis
  proof cases
    case 1
    then show ?thesis by (simp add: fl_zero)
  next
    case 2
    then show ?thesis by (rule pos)
  next
    case 3
    then have "fl (fl (- x)) = fl (- x)" by (intro pos) simp
    then show ?thesis by (simp add: fl_minus)
  qed
qed

lemma fl_of_int_Ints: "fl (of_int n) \<in> \<int>"
proof -
  have pos: "fl (of_int m) \<in> \<int>" if m: "0 < m" for m :: int
  proof (cases "m < 2 ^ 53")
    case True
    then have "fl (of_int m) = of_int m" using m by (intro fl_of_int) simp
    then show ?thesis by simp
  next
    case False
    define x :: real where "x = of_int m"
    have x: "0 < x" using m by (simp add: x_def)
    have "(2::real) powi 53 \<le> x" using False unfolding x_def
      by (simp add: numeral_power_le_of_int_cancel_iff)
    also have "x < 2 powi (expo x + 1)" by (rule expo_bounds(2)[OF x])
    finally have "(53::int) < expo x + 1"
      using power_int_increasing[of "expo x + 1" 53 "2::real"]
      by (cases "53 < expo x + 1") auto
    then have e: "0 \<le> expo x - 52" by simp
    have "ulp x = of_int (2 ^ nat (expo x - 52))" using x e by (simp add: ulp_def power_int_def)
    then have "fl x = of_int (rhe (x / ulp x) * 2 ^ nat (expo x - 52))"
      using x by (simp add: fl_def)
    then show ?thesis unfolding x_def by (metis Ints_of_int)
  qed
  consider "n = 0" | "0 < n" | "n < 0" by linarith
  then show ?thesis
  proof cases
    case 1
    then show ?thesis by (simp add: fl_zero)
  next
    case 2
    then show ?thesis by (rule pos)
  next
    case 3
    then have "fl (of_int (- n)) \<in> \<int>" by (intro pos) simp
    then show ?thesis by (simp add: fl_minus)
  qed
qed


text \<open>Evaluating \<open>fl\<close> at a number whose binade is known.\<close>

lemma fl_eval:
  assumes "2 powi (e + 52) \<le> \<bar>x\<bar>" "\<bar>x\<bar> < 2 powi (e + 53)"
  shows "fl x = of_int (rhe (x / 2 powi e)) * 2 powi e"
proof -
  have "0 < (2::real) powi (e + 52)" by simp
  then have x: "0 < \<bar>x\<bar>" using assms(1) by linarith
  have "expo \<bar>x\<bar> = e + 52"
    using assms(2) by (intro expo_unique[OF x assms(1)]) (simp add: add.commute add.left_commute)
  then have "ulp x = 2 powi e" by (simp add: ulp_def)
  then show ?thesis using x by (simp add: fl_def)
qed

subsection \<open>The style score\<close>

lemma style_loop_foldl: "style_loop score ps = foldl style_step score ps"
  by (induction ps arbitrary: score) simp_all

lemma member_compatible_pairs:
  "(a, b) \<in> set compatible_pairs \<or> (b, a) \<in> set compatible_pairs
     \<longleftrightarrow> compatible_styles a b"
  by (cases a; cases b) (simp_all add: compatible_pairs_def compatible_styles_def doubleton_eq_iff)

lemma style_step_adjustment: "style_step score p = fadd score (style_adjustment p)"
  using member_compatible_pairs[of "fst p" "snd p"]
  by (cases p) (auto simp: style_step_def style_adjustment_def fadd_def fsub_def)

lemma zip_tl_adjacent_pairs: "zip xs (tl xs) = adjacent_pairs xs"
  by (induction xs rule: adjacent_pairs.induct) simp_all

lemma remdups_one_iff:
  "length (remdups xs) = 1 \<longleftrightarrow> xs \<noteq> [] \<and> (\<exists>s. \<forall>x \<in> set xs. x = s)"
proof -
  have "length (remdups xs) = card (set xs)" by (simp add: length_remdups_card_conv)
  moreover have "card (set xs) = 1 \<longleftrightarrow> (\<exists>s. set xs = {s})" by (simp add: card_1_singleton_iff)
  moreover have "(\<exists>s. set xs = {s}) \<longleftrightarrow> xs \<noteq> [] \<and> (\<exists>s. \<forall>x \<in> set xs. x = s)"
    by (cases xs) auto
  ultimately show ?thesis by simp
qed

lemma max_min_clamp: "max 0 (min 100 x) = clamp_0_100 x"
  by (simp add: clamp_0_100_def max_def min_def)

text \<open>
  Claim C5. For a non-empty list of garments \<^verbatim>\<open>check_style_compatibility\<close> returns 100
  when all items share one style, and otherwise the base score 50 adjusted along the pairs of
  neighbours in list order (+10 for equal styles, +5 for a pair of the symmetric
  compatibility table, -10 otherwise) and clamped to \<open>[0, 100]\<close>. A casual garment followed
  by a streetwear garment scores 55.
\<close>

theorem style_score_as_specified:
  "(items \<noteq> [] \<longrightarrow> check_style_compatibility items = styleScore items) \<and>
   (style a = CASUAL \<and> style b = STREETWEAR \<longrightarrow> check_style_compatibility [a, b] = 55)"
proof (intro conjI impI)
  assume ne: "items \<noteq> []"
  have "length (remdups (map style items)) = 1 \<longleftrightarrow> share_one_style items"
    using ne remdups_one_iff[of "map style items"] by (auto simp: share_one_style_def)
  moreover have "style_loop 50 (zip (map style items) (tl (map style items)))
      = foldl (\<lambda>score p. fadd score (style_adjustment p)) 50 (adjacent_pairs (map style items))"
    unfolding style_loop_foldl zip_tl_adjacent_pairs
    by (rule arg_cong[where f = "\<lambda>f. foldl f 50 (adjacent_pairs (map style items))"])
       (simp add: fun_eq_iff style_step_adjustment)
  ultimately show "check_style_compatibility items = styleScore items"
    using ne by (simp add: check_style_compatibility_def styleScore_def Let_def max_min_clamp)
next
  assume ab: "style a = CASUAL \<and> style b = STREETWEAR"
  have "fl 55 = 55" using fl_of_int[of 55] by simp
  then show "check_style_compatibility [a, b] = 55"
    using ab by (simp add: check_style_compatibility_def style_step_def compatible_pairs_def
        fadd_def)
qed

theorem style_score_as_specified_witness:
  "[casual_top, streetwear_bottom] \<noteq> [] \<and>
   check_style_compatibility [casual_top, streetwear_bottom] = styleScore [casual_top, streetwear_bottom] \<and>
   style casual_top = CASUAL \<and> style streetwear_bottom = STREETWEAR \<and>
   check_style_compatibility [casual_top, streetwear_bottom] = 55"
  using style_score_as_specified[of "[casual_top, streetwear_bottom]" casual_top streetwear_bottom]
  by (simp add: casual_top_def streetwear_bottom_def)

subsection \<open>The harmony score\<close>

lemma fl_numeral_180: "fl 180 = 180"
  using fl_of_int[of 180] by simp

lemma h_diff_hue_difference: "h_diff h1 h2 = hue_difference h1 h2"
proof -
  define d where "d = \<bar>fsub h1 h2\<bar>"
  have "(if 180 < d then fsub 360 d else d) = min d (fsub 360 d)"
  proof (cases "180 < d")
    case True
    then have "fl (360 - d) \<le> fl 180" by (intro fl_mono) simp
    then show ?thesis using True by (simp add: fsub_def fl_numeral_180 min_def)
  next
    case False
    then have "fl 180 \<le> fl (360 - d)" by (intro fl_mono) simp
    then show ?thesis using False by (simp add: fsub_def fl_numeral_180 min_def)
  qed
  then show ?thesis unfolding d_def by (simp add: h_diff_def hue_difference_def Let_def)
qed

text \<open>Scores are floats: rounding leaves them unchanged.\<close>

lemma is_float_fl: "is_float (fl x)"
  by (simp add: is_float_def fl_idem)

lemma is_float_100: "is_float 100"
  using fl_of_int[of 100] by (simp add: is_float_def)

lemma harmony_step_adjustment:
  assumes "is_float score"
  shows "harmony_step score c1 c2
    = fadd score (harmony_adjustment (hue_difference (fst c1) (fst c2)))"
  using assms
  by (simp add: harmony_step_def harmony_adjustment_def h_diff_hue_difference Let_def
      fadd_def fsub_def is_float_def)

lemma is_float_harmony_step: "is_float score \<Longrightarrow> is_float (harmony_step score c1 c2)"
  by (simp add: harmony_step_adjustment fadd_def is_float_fl)

lemma harmony_inner_foldl:
  "is_float score \<Longrightarrow>
   harmony_inner score c1 cs
     = foldl (\<lambda>sc p. fadd sc (harmony_adjustment (hue_difference (fst (fst p)) (fst (snd p)))))
         score (map (Pair c1) cs)"
  by (induction cs arbitrary: score)
     (simp_all add: harmony_step_adjustment[symmetric] is_float_harmony_step)

lemma is_float_harmony_inner: "is_float score \<Longrightarrow> is_float (harmony_inner score c1 cs)"
  by (induction cs arbitrary: score) (simp_all add: is_float_harmony_step)

lemma harmony_outer_foldl:
  "is_float score \<Longrightarrow>
   harmony_outer score cs
     = foldl (\<lambda>sc p. fadd sc (harmony_adjustment (hue_difference (fst (fst p)) (fst (snd p)))))
         score (unordered_pairs cs)"
proof (induction cs arbitrary: score)
  case Nil
  show ?case by simp
next
  case (Cons c cs)
  have "is_float (harmony_inner score c cs)"
    using Cons.prems by (rule is_float_harmony_inner)
  then show ?case
    by (simp add: Cons.IH harmony_inner_foldl[OF Cons.prems])
qed

lemma unordered_pairs_map:
  "unordered_pairs (map f xs) = map (\<lambda>p. (f (fst p), f (snd p))) (unordered_pairs xs)"
  by (induction xs) (simp_all add: comp_def)

text \<open>
  Claim C1. \<^verbatim>\<open>calculate_harmony_score\<close> returns 100 for a list of fewer than two colours
  (the empty list included). Otherwise it returns the score of the specification: 100, plus
  for every unordered pair of colours the adjustment of their circular hue difference
  \<open>d = min(|h1 - h2|, 360 - |h1 - h2|)\<close> (+10 for \<open>d\<close> in \<open>[165, 195]\<close>, else +5 for
  \<open>d \<le> 45\<close>, else +8 for \<open>d\<close> in \<open>[105, 135]\<close>, else -15 for \<open>d\<close> in \<open>[60, 90]\<close>, else
  nothing), clamped to \<open>[0, 100]\<close>.
\<close>

theorem harmony_score_as_specified:
  "calculate_harmony_score colors = harmonyScore colors \<and>
   calculate_harmony_score [] = 100 \<and> calculate_harmony_score [c] = 100"
  by (simp add: calculate_harmony_score_def harmonyScore_def max_min_clamp
      harmony_outer_foldl is_float_100 unordered_pairs_map foldl_map hue_def)

subsection \<open>Matching two colours against a scheme\<close>

text \<open>
  Claim C6. With \<open>d\<close> the circular hue difference of the two colours, \<^verbatim>\<open>colors_match\<close>
  returns \<open>|d - 180| \<le> tolerance\<close> for the scheme complementary, \<open>d \<le> tolerance\<close> for
  analogous, \<open>|d - 120| \<le> tolerance\<close> or \<open>|d - 240| \<le> tolerance\<close> for triadic,
  \<open>d \<le> 15\<close> whatever the tolerance for monochromatic, and true for every other scheme
  string.
\<close>

theorem colors_match_as_specified:
  "(colors_match a b ''complementary'' t
      \<longleftrightarrow> \<bar>fsub (hue_difference (hue a) (hue b)) 180\<bar> \<le> t) \<and>
   (colors_match a b ''analogous'' t \<longleftrightarrow> hue_difference (hue a) (hue b) \<le> t) \<and>
   (colors_match a b ''triadic'' t
      \<longleftrightarrow> \<bar>fsub (hue_difference (hue a) (hue b)) 120\<bar> \<le> t
        \<or> \<bar>fsub (hue_difference (hue a) (hue b)) 240\<bar> \<le> t) \<and>
   (colors_match a b ''monochromatic'' t \<longleftrightarrow> hue_difference (hue a) (hue b) \<le> 15) \<and>
   (scheme \<notin> {''complementary'', ''analogous'', ''triadic'', ''monochromatic''}
      \<longrightarrow> colors_match a b scheme t)"
  by (simp add: colors_match_def h_diff_hue_difference hue_def Let_def)

theorem colors_match_as_specified_witness:
  "''pastel'' \<notin> {''complementary'', ''analogous'', ''triadic'', ''monochromatic''} \<and>
   colors_match (255, 0, 0) (0, 255, 0) ''pastel'' 30"
  using colors_match_as_specified[of "(255, 0, 0)" "(0, 255, 0)" 30 "''pastel''"]
  by simp

subsection \<open>Evaluating the colour conversions\<close>

text \<open>
  Concrete colours are evaluated operation by operation: every fact below is one rounded
  operation of the computation, at the operands the computation reaches.
\<close>

lemma colorsys_const_1: "fdiv 1 3 = 6004799503160661 / 18014398509481984"
  unfolding fdiv_def
  by (subst fl_eval[where e = "- 54"]) (simp_all add: rhe_def Let_def)

lemma colorsys_const_2: "fdiv 1 6 = 6004799503160661 / 36028797018963968"
  unfolding fdiv_def
  by (subst fl_eval[where e = "- 55"]) (simp_all add: rhe_def Let_def)

lemma colorsys_const_3: "fdiv 2 3 = 6004799503160661 / 9007199254740992"
  unfolding fdiv_def
  by (subst fl_eval[where e = "- 53"]) (simp_all add: rhe_def Let_def)

lemma colorsys_constants:
  "ONE_THIRD = 6004799503160661 / 18014398509481984" "ONE_SIXTH = 6004799503160661 / 36028797018963968" "TWO_THIRD = 6004799503160661 / 9007199254740992"
  by (simp_all add: ONE_THIRD_def ONE_SIXTH_def TWO_THIRD_def colorsys_const_1 colorsys_const_2 colorsys_const_3)

text \<open>The darkest red, \<open>(1, 0, 0)\<close>: hue 0, and its complement as the code computes it.\<close>

lemma dark_red_hsl_1: "fdiv 1 255 = 282578800148737 / 72057594037927936"
  unfolding fdiv_def
  by (subst fl_eval[where e = "- 60"]) (simp_all add: rhe_def Let_def)

lemma dark_red_hsl_2: "fdiv 0 255 = 0"
  by (simp add: fdiv_def fl_zero)

lemma dark_red_hsl_3: "fadd (282578800148737 / 72057594037927936) 0 = 282578800148737 / 72057594037927936"
  unfolding fadd_def
  by (subst fl_eval[where e = "- 60"]) (simp_all add: rhe_def Let_def)

lemma dark_red_hsl_4: "fsub (282578800148737 / 72057594037927936) 0 = 282578800148737 / 72057594037927936"
  unfolding fsub_def
  by (subst fl_eval[where e = "- 60"]) (simp_all add: rhe_def Let_def)

lemma dark_red_hsl_5: "fdiv (282578800148737 / 72057594037927936) 2 = 282578800148737 / 144115188075855872"
  unfolding fdiv_def
  by (subst fl_eval[where e = "- 61"]) (simp_all add: rhe_def Let_def)

lemma dark_red_hsl_6: "fdiv (282578800148737 / 72057594037927936) (282578800148737 / 72057594037927936) = 1"
  unfolding fdiv_def
  by (subst fl_eval[where e = "- 52"]) (simp_all add: rhe_def Let_def)

lemma dark_red_hsl_7: "fsub (282578800148737 / 72057594037927936) (282578800148737 / 72057594037927936) = 0"
  by (simp add: fsub_def fl_zero)

lemma dark_red_hsl_8: "fdiv 0 (282578800148737 / 72057594037927936) = 0"
  by (simp add: fdiv_def fl_zero)

lemma dark_red_hsl_9: "fsub 1 1 = 0"
  by (simp add: fsub_def fl_zero)

lemma dark_red_hsl_10: "fdiv 0 6 = 0"
  by (simp add: fdiv_def fl_zero)

lemma dark_red_hsl_11: "py_mod 0 1 = 0"
  by (simp add: py_mod_def py_int_def Let_def)

lemma dark_red_hsl_12: "fmul 0 360 = 0"
  by (simp add: fmul_def fl_zero)

lemma dark_red_hsl_13: "fmul 1 100 = 100"
  unfolding fmul_def
  by (subst fl_eval[where e = "- 46"]) (simp_all add: rhe_def Let_def)

lemma dark_red_hsl_14: "fmul (282578800148737 / 144115188075855872) 100 = 7064470003718425 / 36028797018963968"
  unfolding fmul_def
  by (subst fl_eval[where e = "- 55"]) (simp_all add: rhe_def Let_def)

lemma rgb_to_hsl_dark_red: "rgb_to_hsl (1, 0, 0) = (0, 100, 7064470003718425 / 36028797018963968)"
  by (simp add: rgb_to_hsl_def rgb_to_hls_def Let_def
      dark_red_hsl_1 dark_red_hsl_2 dark_red_hsl_3 dark_red_hsl_4 dark_red_hsl_5 dark_red_hsl_6
      dark_red_hsl_7 dark_red_hsl_8 dark_red_hsl_9 dark_red_hsl_10 dark_red_hsl_11
      dark_red_hsl_12 dark_red_hsl_13 dark_red_hsl_14)

lemma dark_red_rotate_1: "fadd 0 180 = 180"
  unfolding fadd_def
  by (subst fl_eval[where e = "- 45"]) (simp_all add: rhe_def Let_def)

lemma dark_red_rotate_2: "py_mod 180 360 = 180"
  by (simp add: py_mod_def py_int_def Let_def)

lemma dark_red_back_1: "fdiv 180 360 = 1 / 2"
  unfolding fdiv_def
  by (subst fl_eval[where e = "- 53"]) (simp_all add: rhe_def Let_def)

lemma dark_red_back_2: "fdiv (7064470003718425 / 36028797018963968) 100 = 282578800148737 / 144115188075855872"
  unfolding fdiv_def
  by (subst fl_eval[where e = "- 61"]) (simp_all add: rhe_def Let_def)

lemma dark_red_back_3: "fdiv 100 100 = 1"
  unfolding fdiv_def
  by (subst fl_eval[where e = "- 52"]) (simp_all add: rhe_def Let_def)

lemma dark_red_back_4: "fadd 1 1 = 2"
  unfolding fadd_def
  by (subst fl_eval[where e = "- 51"]) (simp_all add: rhe_def Let_def)

lemma dark_red_back_5: "fmul (282578800148737 / 144115188075855872) 2 = 282578800148737 / 72057594037927936"
  unfolding fmul_def
  by (subst fl_eval[where e = "- 60"]) (simp_all add: rhe_def Let_def)

lemma dark_red_back_6: "fmul 2 (282578800148737 / 144115188075855872) = 282578800148737 / 72057594037927936"
  unfolding fmul_def
  by (subst fl_eval[where e = "- 60"]) (simp_all add: rhe_def Let_def)

lemma dark_red_back_7: "fadd (1 / 2) (6004799503160661 / 18014398509481984) = 3752999689475413 / 4503599627370496"
  unfolding fadd_def
  by (subst fl_eval[where e = "- 53"]) (simp_all add: rhe_def Let_def)

lemma dark_red_back_8: "py_mod (3752999689475413 / 4503599627370496) 1 = 3752999689475413 / 4503599627370496"
  by (simp add: py_mod_def py_int_def Let_def)

lemma dark_red_back_9: "py_mod (1 / 2) 1 = 1 / 2"
  by (simp add: py_mod_def py_int_def Let_def)

lemma dark_red_back_10: "fsub (6004799503160661 / 9007199254740992) (1 / 2) = 1501199875790165 / 9007199254740992"
  unfolding fsub_def
  by (subst fl_eval[where e = "- 55"]) (simp_all add: rhe_def Let_def)

lemma dark_red_back_11: "fmul (282578800148737 / 72057594037927936) (1501199875790165 / 9007199254740992) = 1507086934126597 / 2305843009213693952"
  unfolding fmul_def
  by (subst fl_eval[where e = "- 63"]) (simp_all add: rhe_def Let_def)

lemma dark_red_back_12: "fmul (1507086934126597 / 2305843009213693952) 6 = 4521260802379791 / 1152921504606846976"
  unfolding fmul_def
  by (subst fl_eval[where e = "- 60"]) (simp_all add: rhe_def Let_def)

lemma dark_red_back_13: "fadd 0 (4521260802379791 / 1152921504606846976) = 4521260802379791 / 1152921504606846976"
  unfolding fadd_def
  by (subst fl_eval[where e = "- 60"]) (simp_all add: rhe_def Let_def)

lemma dark_red_back_14: "fsub (1 / 2) (6004799503160661 / 18014398509481984) = 3002399751580331 / 18014398509481984"
  unfolding fsub_def
  by (subst fl_eval[where e = "- 55"]) (simp_all add: rhe_def Let_def)

lemma dark_red_back_15: "py_mod (3002399751580331 / 18014398509481984) 1 = 3002399751580331 / 18014398509481984"
  by (simp add: py_mod_def py_int_def Let_def)

lemma dark_red_back_16: "fmul 0 255 = 0"
  by (simp add: fmul_def fl_zero)

lemma dark_red_back_17: "fmul (4521260802379791 / 1152921504606846976) 255 = 4503599627370495 / 4503599627370496"
  unfolding fmul_def
  by (subst fl_eval[where e = "- 53"]) (simp_all add: rhe_def Let_def)

lemma dark_red_back_18: "fmul (282578800148737 / 72057594037927936) 255 = 1"
  unfolding fmul_def
  by (subst fl_eval[where e = "- 53"]) (simp_all add: rhe_def Let_def)

lemma hsl_to_rgb_dark_red_rotated: "hsl_to_rgb (180, 100, 7064470003718425 / 36028797018963968) = (0, 0, 1)"
  by (simp add: hsl_to_rgb_def hls_to_rgb_def v_hls_def Let_def py_int_def colorsys_constants
      dark_red_back_1 dark_red_back_2 dark_red_back_3 colorsys_const_1 colorsys_const_2
      colorsys_const_3 dark_red_back_4 dark_red_back_5 dark_red_back_6 dark_red_hsl_7
      dark_red_back_7 dark_red_back_8 dark_red_back_9 dark_red_hsl_4 dark_red_back_10
      dark_red_back_11 dark_red_back_12 dark_red_back_13 dark_red_back_14 dark_red_back_15
      dark_red_back_16 dark_red_back_17 dark_red_back_18)

lemma get_complementary_dark_red: "get_complementary (1, 0, 0) = (0, 0, 1)"
  by (simp add: get_complementary_def rgb_to_hsl_dark_red hsl_to_rgb_dark_red_rotated dark_red_rotate_1 dark_red_rotate_2)

lemma dark_blue_hsl_1: "fadd 4 1 = 5"
  unfolding fadd_def
  by (subst fl_eval[where e = "- 50"]) (simp_all add: rhe_def Let_def)

lemma dark_blue_hsl_2: "fsub 5 1 = 4"
  unfolding fsub_def
  by (subst fl_eval[where e = "- 50"]) (simp_all add: rhe_def Let_def)

lemma dark_blue_hsl_3: "fdiv 4 6 = 6004799503160661 / 9007199254740992"
  unfolding fdiv_def
  by (subst fl_eval[where e = "- 53"]) (simp_all add: rhe_def Let_def)

lemma dark_blue_hsl_4: "py_mod (6004799503160661 / 9007199254740992) 1 = 6004799503160661 / 9007199254740992"
  by (simp add: py_mod_def py_int_def Let_def)

lemma dark_blue_hsl_5: "fmul (6004799503160661 / 9007199254740992) 360 = 240"
  unfolding fmul_def
  by (subst fl_eval[where e = "- 45"]) (simp_all add: rhe_def Let_def)

lemma rgb_to_hsl_dark_blue: "rgb_to_hsl (0, 0, 1) = (240, 100, 7064470003718425 / 36028797018963968)"
  by (simp add: rgb_to_hsl_def rgb_to_hls_def Let_def
      dark_red_hsl_2 dark_red_hsl_1 dark_red_hsl_3 dark_red_hsl_4 dark_red_hsl_5 dark_red_hsl_6
      dark_red_hsl_7 dark_red_hsl_8 dark_blue_hsl_1 dark_blue_hsl_2 dark_blue_hsl_3
      dark_blue_hsl_4 dark_blue_hsl_5 dark_red_hsl_13 dark_red_hsl_14)

lemma dark_red_match_1: "fsub 0 240 = (- 240)"
  unfolding fsub_def
  by (subst fl_eval[where e = "- 45"]) (simp_all add: rhe_def Let_def)

lemma dark_red_match_2: "fsub 360 240 = 120"
  unfolding fsub_def
  by (subst fl_eval[where e = "- 46"]) (simp_all add: rhe_def Let_def)

lemma dark_red_match_3: "fsub 120 180 = (- 60)"
  unfolding fsub_def
  by (subst fl_eval[where e = "- 47"]) (simp_all add: rhe_def Let_def)

text \<open>
  Claim C7 says that every colour with a defined hue matches its complement under the scheme
  complementary at the default tolerance 30. At \<open>(1, 0, 0)\<close> (hue 0) the code does not:
  \<^verbatim>\<open>get_complementary\<close> rotates the hue to 180, and \<^verbatim>\<open>hls_to_rgb\<close> yields the green
  channel \<open>m2 * ((TWO_THIRD - 0.5) * 6)\<close>, a float just below \<open>1/255\<close>, so that
  \<^verbatim>\<open>int(g * 255)\<close> truncates \<open>0.9999999999999998\<close> to 0. The colour returned is
  \<open>(0, 0, 1)\<close>, of hue 240, at hue difference 120 from the input, and
  \<open>|120 - 180| = 60 > 30\<close>.
\<close>

theorem complementary_of_dark_red_does_not_match:
  "hue (1, 0, 0) = 0 \<and> get_complementary (1, 0, 0) = (0, 0, 1) \<and> hue (0, 0, 1) = 240 \<and>
   \<not> colors_match (1, 0, 0) (get_complementary (1, 0, 0)) ''complementary'' 30"
  by (simp add: hue_def get_complementary_dark_red colors_match_def h_diff_def Let_def
      rgb_to_hsl_dark_red rgb_to_hsl_dark_blue dark_red_hsl_1 dark_red_hsl_2 dark_red_hsl_3 dark_red_hsl_4 dark_red_hsl_5 dark_red_hsl_6 dark_red_hsl_7 dark_red_hsl_8 dark_red_hsl_9 dark_red_hsl_10 dark_red_hsl_11 dark_red_hsl_12 dark_red_hsl_13 dark_red_hsl_14 dark_blue_hsl_1 dark_blue_hsl_2 dark_blue_hsl_3 dark_blue_hsl_4 dark_blue_hsl_5 dark_red_match_1 dark_red_match_2 dark_red_match_3)


























subsection \<open>Sorting and cutting the suggestions\<close>

lemma sort_reverse_stable_descending: "stable_descending key xs (sort_reverse key xs)"
proof -
  have "sorted (map (\<lambda>x. - key x) (sort_key (\<lambda>x. - key x) xs))"
    by (rule sorted_sort_key)
  then have "sorted_wrt (\<lambda>a b. key b \<le> key a) (sort_key (\<lambda>x. - key x) xs)"
    by (simp add: sorted_map)
  moreover have "filter (\<lambda>x. key x = v) (sort_key (\<lambda>x. - key x) xs) = filter (\<lambda>x. key x = v) xs"
    for v
    using sort_key_stable[of "\<lambda>x. - key x" "- v" xs] by simp
  ultimately show ?thesis by (simp add: stable_descending_def sort_reverse_def)
qed

text \<open>A stable descending sort is determined by its two properties.\<close>

lemma descending_same_ties_unique:
  fixes key :: "'a \<Rightarrow> real"
  assumes "sorted_wrt (\<lambda>a b. key b \<le> key a) ys" "sorted_wrt (\<lambda>a b. key b \<le> key a) zs"
    and "\<And>v. filter (\<lambda>x. key x = v) ys = filter (\<lambda>x. key x = v) zs"
  shows "ys = zs"
  using assms
proof (induction ys arbitrary: zs)
  case Nil
  show ?case
  proof (cases zs)
    case Nil
    then show ?thesis by simp
  next
    case (Cons z zs')
    then show ?thesis using Nil.prems(3)[of "key z"] by simp
  qed
next
  case (Cons y ys)
  have "filter (\<lambda>x. key x = key y) zs \<noteq> []" using Cons.prems(3)[of "key y"] by auto
  then obtain z zs' where zs: "zs = z # zs'" by (cases zs) auto
  have "y \<in> set (filter (\<lambda>x. key x = key y) (y # ys))" by simp
  then have "y \<in> set (filter (\<lambda>x. key x = key y) zs)"
    by (simp only: Cons.prems(3)[of "key y"])
  then have "y \<in> set zs" by simp
  then have yz: "key y \<le> key z" using Cons.prems(2) zs by auto
  have "z \<in> set (filter (\<lambda>x. key x = key z) zs)" using zs by simp
  then have "z \<in> set (filter (\<lambda>x. key x = key z) (y # ys))"
    by (simp only: Cons.prems(3)[of "key z"])
  then have "z \<in> set (y # ys)" by (simp split: if_splits)
  then have zy: "key z \<le> key y" using Cons.prems(1) by auto
  have k: "key y = key z" using yz zy by simp
  have "y = z" using Cons.prems(3)[of "key y"] zs k by simp
  moreover have "ys = zs'"
  proof (rule Cons.IH)
    show "sorted_wrt (\<lambda>a b. key b \<le> key a) ys" using Cons.prems(1) by simp
    show "sorted_wrt (\<lambda>a b. key b \<le> key a) zs'" using Cons.prems(2) zs by simp
    show "filter (\<lambda>x. key x = v) ys = filter (\<lambda>x. key x = v) zs'" for v
      using Cons.prems(3)[of v] zs \<open>y = z\<close> by (cases "key z = v") simp_all
  qed
  ultimately show ?case using zs by simp
qed

lemma stable_descending_unique:
  assumes "stable_descending key xs ys" "stable_descending key xs zs"
  shows "ys = zs"
  using assms descending_same_ties_unique[of key ys zs]
  by (simp add: stable_descending_def)

lemma group_by_category_Nil: "group_by_category [] = Map.empty"
  by (simp add: group_by_category_def)

lemma generate_all_combinations_empty: "generate_all_combinations Map.empty cs = []"
  by (simp add: generate_all_combinations_def generate_all_for_pattern_def OUTFIT_COMBINATIONS_def)

lemma all_suggestions_Nil: "all_suggestions [] b cs = []"
  by (simp add: all_suggestions_def group_by_category_Nil generate_all_combinations_empty Let_def)

lemma filter_by_style_Nil: "filter_by_style st [] = []"
  by (simp add: filter_by_style_def split: option.splits)

lemma generate_outfit_suggestions_candidates:
  "generate_outfit_suggestions storage request_items base_item_id style_opt color_scheme k
     = slice_to (sort_reverse total_score
         (candidates storage request_items base_item_id style_opt color_scheme)) k"
proof (cases "selected_items storage request_items = []")
  case True
  then show ?thesis
    by (simp add: generate_outfit_suggestions_def candidates_def filter_by_style_Nil
        all_suggestions_Nil sort_reverse_def slice_to_def)
next
  case False
  then show ?thesis
    by (simp add: generate_outfit_suggestions_def candidates_def)
qed

subsection \<open>The scores of a suggestion\<close>

text \<open>Scores are whole numbers between 0 and 100, which \<^verbatim>\<open>round(x, 2)\<close> leaves unchanged.\<close>

lemma py_round2_whole_score:
  assumes "whole_score x"
  shows "py_round2 x = x"
proof -
  from assms obtain n :: int where n: "x = of_int n" "0 \<le> n" "n \<le> 100"
    by (auto simp: whole_score_def Ints_def)
  have "x * 100 = of_int (n * 100)" using n(1) by simp
  then have "rhe (x * 100) = n * 100" by (simp only: rhe_of_int)
  then have "py_round2 x = fl (of_int n)" by (simp add: py_round2_def)
  also have "\<dots> = of_int n" using n(2,3) by (intro fl_of_int) simp
  finally show ?thesis using n(1) by simp
qed

lemma fl_Ints: "x \<in> \<int> \<Longrightarrow> fl x \<in> \<int>"
  using fl_of_int_Ints by (auto elim!: Ints_cases)

lemma clamp_whole_score: "x \<in> \<int> \<Longrightarrow> whole_score (max 0 (min 100 x))"
  by (auto simp: whole_score_def max_def min_def)

lemma harmony_step_Ints: "score \<in> \<int> \<Longrightarrow> harmony_step score c1 c2 \<in> \<int>"
  by (simp add: harmony_step_def Let_def fadd_def fsub_def fl_Ints)

lemma harmony_inner_Ints: "score \<in> \<int> \<Longrightarrow> harmony_inner score c1 cs \<in> \<int>"
  by (induction cs arbitrary: score) (simp_all add: harmony_step_Ints)

lemma harmony_outer_Ints: "score \<in> \<int> \<Longrightarrow> harmony_outer score cs \<in> \<int>"
  by (induction cs arbitrary: score) (simp_all add: harmony_inner_Ints)

lemma whole_score_100: "whole_score 100"
  by (simp add: whole_score_def)

lemma whole_score_0: "whole_score 0"
  by (simp add: whole_score_def)

lemma whole_score_calculate_harmony_score: "whole_score (calculate_harmony_score colors)"
  by (simp add: calculate_harmony_score_def whole_score_100 clamp_whole_score harmony_outer_Ints)

lemma whole_score_calculate_outfit_harmony: "whole_score (calculate_outfit_harmony outfit)"
  by (simp add: calculate_outfit_harmony_def Let_def whole_score_100
      whole_score_calculate_harmony_score)

lemma style_step_Ints: "score \<in> \<int> \<Longrightarrow> style_step score p \<in> \<int>"
  by (cases p) (simp add: style_step_def fadd_def fsub_def fl_Ints)

lemma style_loop_Ints: "score \<in> \<int> \<Longrightarrow> style_loop score ps \<in> \<int>"
  by (induction ps arbitrary: score) (simp_all add: style_step_Ints)

lemma whole_score_check_style_compatibility: "whole_score (check_style_compatibility outfit)"
  by (simp add: check_style_compatibility_def Let_def whole_score_100 whole_score_0
      clamp_whole_score style_loop_Ints)

lemma total_score_make_suggestion:
  "total_score (make_suggestion outfit pat)
     = py_round2 (fadd (fmul (color_harmony_score (make_suggestion outfit pat)) (fl (6/10)))
         (fmul (style_compatibility_score (make_suggestion outfit pat)) (fl (4/10))))"
  by (simp add: make_suggestion_def Let_def
      py_round2_whole_score[OF whole_score_calculate_outfit_harmony]
      py_round2_whole_score[OF whole_score_check_style_compatibility])

text \<open>Every candidate, in either mode, is made by \<open>make_suggestion\<close>.\<close>

lemma made_generate_from_base:
  "s \<in> set (generate_from_base base_item d cs) \<Longrightarrow> made s"
  by (auto simp: generate_from_base_def generate_for_pattern_def Let_def made_def
      split: if_splits)

lemma made_generate_all_combinations:
  "s \<in> set (generate_all_combinations d cs) \<Longrightarrow> made s"
  by (auto simp: generate_all_combinations_def generate_all_for_pattern_def made_def
      split: if_splits)

lemma made_all_suggestions: "s \<in> set (all_suggestions all_items b cs) \<Longrightarrow> made s"
  by (auto simp: all_suggestions_def Let_def made_generate_from_base
      made_generate_all_combinations split: if_splits option.splits)

lemma set_slice_to: "set (slice_to xs k) \<subseteq> set xs"
  by (auto simp: slice_to_def dest: in_set_takeD)

lemma set_generate_outfit_suggestions:
  "set (generate_outfit_suggestions storage request_items b st cs k)
     \<subseteq> set (candidates storage request_items b st cs)"
  using set_slice_to[of "sort_reverse total_score (candidates storage request_items b st cs)" k]
  by (simp add: generate_outfit_suggestions_candidates sort_reverse_def)

lemma suggestion_items_make_suggestion: "suggestion_items (make_suggestion outfit pat) = outfit"
  by (simp add: make_suggestion_def Let_def)

lemma itertools_product_nonempty:
  "list_all (\<lambda>l. l \<noteq> []) ls \<Longrightarrow> itertools_product ls \<noteq> []"
proof (induction ls)
  case Nil
  show ?case by simp
next
  case (Cons l ls)
  then obtain x xs where l: "l = x # xs" by (cases l) auto
  obtain t ts where "itertools_product ls = t # ts"
    using Cons by (cases "itertools_product ls") auto
  then show ?case using l by simp
qed

lemma narrow_options_nonempty: "options \<noteq> [] \<Longrightarrow> narrow_options base_rgb cs options \<noteq> []"
  by (simp add: narrow_options_def Let_def split: option.splits)

lemma category_options_all_present:
  assumes "list_all (\<lambda>cat. \<exists>l. d cat = Some l \<and> l \<noteq> []) cats"
  shows "length (category_options d base_rgb cs cats) = length cats
    \<and> list_all (\<lambda>l. l \<noteq> []) (category_options d base_rgb cs cats)"
  using assms
  by (induction cats)
     (auto simp: category_options_def map_filter_simps narrow_options_nonempty)

subsection \<open>Evaluating scores and matches\<close>

text \<open>
  The rounded operations behind the scores of two colourless outfits and behind the match of
  pure red with pure green and with itself.
\<close>

lemma score_op_1: "fadd 50 5 = 55"
  unfolding fadd_def
  by (subst fl_eval[where e = "- 47"]) (simp_all add: rhe_def Let_def)

lemma score_op_2: "py_round2 100 = 100"
  unfolding py_round2_def
  by (subst fl_eval[where e = "- 46"]) (simp_all add: rhe_def Let_def)

lemma score_op_3: "py_round2 55 = 55"
  unfolding py_round2_def
  by (subst fl_eval[where e = "- 47"]) (simp_all add: rhe_def Let_def)

lemma score_op_4: "fl (3 / 5) = 5404319552844595 / 9007199254740992"
  by (subst fl_eval[where e = "- 53"]) (simp_all add: rhe_def Let_def)

lemma score_op_5: "fmul 100 (5404319552844595 / 9007199254740992) = 60"
  unfolding fmul_def
  by (subst fl_eval[where e = "- 47"]) (simp_all add: rhe_def Let_def)

lemma score_op_6: "fl (2 / 5) = 3602879701896397 / 9007199254740992"
  by (subst fl_eval[where e = "- 54"]) (simp_all add: rhe_def Let_def)

lemma score_op_7: "fmul 55 (3602879701896397 / 9007199254740992) = 22"
  unfolding fmul_def
  by (subst fl_eval[where e = "- 48"]) (simp_all add: rhe_def Let_def)

lemma score_op_8: "fadd 60 22 = 82"
  unfolding fadd_def
  by (subst fl_eval[where e = "- 46"]) (simp_all add: rhe_def Let_def)

lemma score_op_9: "py_round2 82 = 82"
  unfolding py_round2_def
  by (subst fl_eval[where e = "- 46"]) (simp_all add: rhe_def Let_def)

lemma score_op_10: "fmul 100 (3602879701896397 / 9007199254740992) = 40"
  unfolding fmul_def
  by (subst fl_eval[where e = "- 47"]) (simp_all add: rhe_def Let_def)

lemma score_op_11: "fadd 60 40 = 100"
  unfolding fadd_def
  by (subst fl_eval[where e = "- 46"]) (simp_all add: rhe_def Let_def)

lemma red_hsl_1: "fdiv 255 255 = 1"
  unfolding fdiv_def
  by (subst fl_eval[where e = "- 52"]) (simp_all add: rhe_def Let_def)

lemma red_hsl_2: "fdiv 0 255 = 0"
  by (simp add: fdiv_def fl_zero)

lemma red_hsl_3: "fadd 1 0 = 1"
  unfolding fadd_def
  by (subst fl_eval[where e = "- 52"]) (simp_all add: rhe_def Let_def)

lemma red_hsl_4: "fsub 1 0 = 1"
  unfolding fsub_def
  by (subst fl_eval[where e = "- 52"]) (simp_all add: rhe_def Let_def)

lemma red_hsl_5: "fdiv 1 2 = 1 / 2"
  unfolding fdiv_def
  by (subst fl_eval[where e = "- 53"]) (simp_all add: rhe_def Let_def)

lemma red_hsl_6: "fdiv 1 1 = 1"
  unfolding fdiv_def
  by (subst fl_eval[where e = "- 52"]) (simp_all add: rhe_def Let_def)

lemma red_hsl_7: "fsub 1 1 = 0"
  by (simp add: fsub_def fl_zero)

lemma red_hsl_8: "fdiv 0 1 = 0"
  by (simp add: fdiv_def fl_zero)

lemma red_hsl_9: "fdiv 0 6 = 0"
  by (simp add: fdiv_def fl_zero)

lemma red_hsl_10: "py_mod 0 1 = 0"
  by (simp add: py_mod_def py_int_def Let_def)

lemma red_hsl_11: "fmul 0 360 = 0"
  by (simp add: fmul_def fl_zero)

lemma red_hsl_12: "fmul 1 100 = 100"
  unfolding fmul_def
  by (subst fl_eval[where e = "- 46"]) (simp_all add: rhe_def Let_def)

lemma red_hsl_13: "fmul (1 / 2) 100 = 50"
  unfolding fmul_def
  by (subst fl_eval[where e = "- 47"]) (simp_all add: rhe_def Let_def)

lemma rgb_to_hsl_red: "rgb_to_hsl (255, 0, 0) = (0, 100, 50)"
  by (simp add: rgb_to_hsl_def rgb_to_hls_def Let_def
      red_hsl_1 red_hsl_2 red_hsl_3 red_hsl_4 red_hsl_5 red_hsl_6 red_hsl_7 red_hsl_8 red_hsl_9
      red_hsl_10 red_hsl_11 red_hsl_12 red_hsl_13)

lemma green_hsl_1: "fadd 2 1 = 3"
  unfolding fadd_def
  by (subst fl_eval[where e = "- 51"]) (simp_all add: rhe_def Let_def)

lemma green_hsl_2: "fsub 3 1 = 2"
  unfolding fsub_def
  by (subst fl_eval[where e = "- 51"]) (simp_all add: rhe_def Let_def)

lemma green_hsl_3: "fdiv 2 6 = 6004799503160661 / 18014398509481984"
  unfolding fdiv_def
  by (subst fl_eval[where e = "- 54"]) (simp_all add: rhe_def Let_def)

lemma green_hsl_4: "py_mod (6004799503160661 / 18014398509481984) 1 = 6004799503160661 / 18014398509481984"
  by (simp add: py_mod_def py_int_def Let_def)

lemma green_hsl_5: "fmul (6004799503160661 / 18014398509481984) 360 = 120"
  unfolding fmul_def
  by (subst fl_eval[where e = "- 46"]) (simp_all add: rhe_def Let_def)

lemma rgb_to_hsl_green: "rgb_to_hsl (0, 255, 0) = (120, 100, 50)"
  by (simp add: rgb_to_hsl_def rgb_to_hls_def Let_def
      red_hsl_2 red_hsl_1 red_hsl_3 red_hsl_4 red_hsl_5 red_hsl_6 red_hsl_7 red_hsl_8
      green_hsl_1 green_hsl_2 green_hsl_3 green_hsl_4 green_hsl_5 red_hsl_12 red_hsl_13)

lemma red_green_1: "fsub 0 120 = (- 120)"
  unfolding fsub_def
  by (subst fl_eval[where e = "- 46"]) (simp_all add: rhe_def Let_def)

lemma red_green_2: "fsub 0 0 = 0"
  by (simp add: fsub_def fl_zero)

lemma colors_match_red_green: "\<not> colors_match (255, 0, 0) (0, 255, 0) ''analogous'' 30"
  by (simp add: colors_match_def h_diff_def Let_def rgb_to_hsl_red rgb_to_hsl_green red_hsl_1 red_hsl_2 red_hsl_3 red_hsl_4 red_hsl_5 red_hsl_6 red_hsl_7 red_hsl_8 red_hsl_9 red_hsl_10 red_hsl_11 red_hsl_12 red_hsl_13 green_hsl_1 green_hsl_2 green_hsl_3 green_hsl_4 green_hsl_5 red_green_1 red_green_2)


lemma make_suggestion_casual_streetwear:
  "make_suggestion [casual_top, streetwear_bottom] [TOP, BOTTOM]
     = \<lparr>suggestion_items = [casual_top, streetwear_bottom], color_harmony_score = 100,
        style_compatibility_score = 55, total_score = 82, pattern = [TOP, BOTTOM]\<rparr>"
  by (simp add: make_suggestion_def calculate_outfit_harmony_def get_dominant_rgb_def
      map_filter_simps check_style_compatibility_def style_step_def compatible_pairs_def
      casual_top_def streetwear_bottom_def
      score_op_1 score_op_2 score_op_3 score_op_4 score_op_5 score_op_6 score_op_7 score_op_8
      score_op_9 score_op_10 score_op_11)

lemma make_suggestion_casual_casual:
  "make_suggestion [casual_top, casual_bottom] [TOP, BOTTOM]
     = \<lparr>suggestion_items = [casual_top, casual_bottom], color_harmony_score = 100,
        style_compatibility_score = 100, total_score = 100, pattern = [TOP, BOTTOM]\<rparr>"
  by (simp add: make_suggestion_def calculate_outfit_harmony_def get_dominant_rgb_def
      map_filter_simps check_style_compatibility_def 
      casual_top_def casual_bottom_def
      score_op_1 score_op_2 score_op_3 score_op_4 score_op_5 score_op_6 score_op_7 score_op_8
      score_op_9 score_op_10 score_op_11)

lemma group_three:
  "group_by_category [casual_top, streetwear_bottom, casual_bottom]
     = [TOP \<mapsto> [casual_top], BOTTOM \<mapsto> [streetwear_bottom, casual_bottom]]"
  by (simp add: group_by_category_def group_step_def casual_top_def streetwear_bottom_def
      casual_bottom_def fun_eq_iff)

lemma candidates_three:
  "candidates [] (Some [casual_top, streetwear_bottom, casual_bottom]) None None None
     = [make_suggestion [casual_top, streetwear_bottom] [TOP, BOTTOM],
        make_suggestion [casual_top, casual_bottom] [TOP, BOTTOM]]"
  by (simp add: candidates_def selected_items_def filter_by_style_def all_suggestions_def
      given_def group_three generate_all_combinations_def generate_all_for_pattern_def
      OUTFIT_COMBINATIONS_def passes_color_scheme_def)

lemma total_scores_two:
  "total_score (make_suggestion [casual_top, streetwear_bottom] [TOP, BOTTOM]) = 82"
  "total_score (make_suggestion [casual_top, casual_bottom] [TOP, BOTTOM]) = 100"
  by (simp_all add: make_suggestion_casual_streetwear make_suggestion_casual_casual)

lemma stable_descending_two:
  "stable_descending total_score
     [make_suggestion [casual_top, streetwear_bottom] [TOP, BOTTOM],
      make_suggestion [casual_top, casual_bottom] [TOP, BOTTOM]]
     [make_suggestion [casual_top, casual_bottom] [TOP, BOTTOM],
      make_suggestion [casual_top, streetwear_bottom] [TOP, BOTTOM]]"
  by (simp add: stable_descending_def total_scores_two)

lemma generate_three:
  "generate_outfit_suggestions [] (Some [casual_top, streetwear_bottom, casual_bottom])
       None None None 5
     = [make_suggestion [casual_top, casual_bottom] [TOP, BOTTOM],
        make_suggestion [casual_top, streetwear_bottom] [TOP, BOTTOM]]"
  by (simp add: generate_outfit_suggestions_candidates candidates_three sort_reverse_def
      slice_to_def total_scores_two)

lemma dominant_rgb_examples:
  "get_dominant_rgb casual_top = None"
  "get_dominant_rgb red_bottom = Some (255, 0, 0)"
  "get_dominant_rgb red_shoes = Some (255, 0, 0)"
  "get_dominant_rgb green_shoes = Some (0, 255, 0)"
  by (simp_all add: get_dominant_rgb_def casual_top_def red_bottom_def red_shoes_def
      green_shoes_def red_def green_def)



lemma garment_fields:
  "style casual_top = CASUAL" "style streetwear_bottom = STREETWEAR"
  "category casual_top = TOP" "category red_bottom = BOTTOM"
  by (simp_all add: casual_top_def streetwear_bottom_def red_bottom_def)

lemma group_red_green:
  "group_by_category [casual_top, red_bottom, green_shoes]
     = [TOP \<mapsto> [casual_top], BOTTOM \<mapsto> [red_bottom], SHOES \<mapsto> [green_shoes]]"
  "group_by_category [casual_top, red_bottom, red_shoes]
     = [TOP \<mapsto> [casual_top], BOTTOM \<mapsto> [red_bottom], SHOES \<mapsto> [red_shoes]]"
  by (simp_all add: group_by_category_def group_step_def casual_top_def red_bottom_def
      green_shoes_def red_shoes_def fun_eq_iff)


subsection \<open>The claims on outfit generation\<close>

text \<open>
  Claim C3. For every \<open>k \<ge> 1\<close>, \<^verbatim>\<open>generate_outfit_suggestions\<close> returns the first \<open>k\<close>
  elements of the candidates sorted stably into descending order of \<^verbatim>\<open>total_score\<close>
  (candidates of equal score stay in generation order), whichever list \<open>ranked\<close> that
  sorting is; the returned list has at most \<open>k\<close> elements.
\<close>

theorem suggestions_sorted_and_capped:
  assumes "1 \<le> k"
    and "stable_descending total_score
      (candidates storage request_items base_item_id style_opt color_scheme) ranked"
  shows "generate_outfit_suggestions storage request_items base_item_id style_opt color_scheme k
       = take (nat k) ranked \<and>
     int (length (generate_outfit_suggestions storage request_items base_item_id style_opt
        color_scheme k)) \<le> k"
proof -
  have "ranked = sort_reverse total_score
      (candidates storage request_items base_item_id style_opt color_scheme)"
    using assms(2) sort_reverse_stable_descending by (rule stable_descending_unique)
  then show ?thesis
    using assms(1) by (simp add: generate_outfit_suggestions_candidates slice_to_def)
qed

theorem suggestions_sorted_and_capped_witness:
  "(1::int) \<le> 5 \<and>
   stable_descending total_score
     (candidates [] (Some [casual_top, streetwear_bottom, casual_bottom]) None None None)
     [make_suggestion [casual_top, casual_bottom] [TOP, BOTTOM],
      make_suggestion [casual_top, streetwear_bottom] [TOP, BOTTOM]] \<and>
   generate_outfit_suggestions [] (Some [casual_top, streetwear_bottom, casual_bottom])
       None None None 5
     = [make_suggestion [casual_top, casual_bottom] [TOP, BOTTOM],
        make_suggestion [casual_top, streetwear_bottom] [TOP, BOTTOM]] \<and>
   int (length (generate_outfit_suggestions [] (Some [casual_top, streetwear_bottom, casual_bottom])
       None None None 5)) \<le> 5"
  using suggestions_sorted_and_capped[of 5 "[]"
      "Some [casual_top, streetwear_bottom, casual_bottom]" None None None
      "[make_suggestion [casual_top, casual_bottom] [TOP, BOTTOM],
        make_suggestion [casual_top, streetwear_bottom] [TOP, BOTTOM]]"]
  by (simp add: candidates_three stable_descending_two)

text \<open>
  Claim C4. Every candidate, of base-item mode and of open mode, and so every suggestion
  returned, carries as \<^verbatim>\<open>total_score\<close> the value of
  \<open>0.6 * color_harmony_score + 0.4 * style_compatibility_score\<close> rounded to two decimals.
\<close>

theorem total_score_weighted:
  assumes "s \<in> set (generate_from_base base_item d color_scheme)
      \<union> set (generate_all_combinations d color_scheme)
      \<union> set (generate_outfit_suggestions storage request_items base_item_id style_opt
          color_scheme' k)"
  shows "total_score s
     = py_round2 (fadd (fmul (color_harmony_score s) (fl (6/10)))
         (fmul (style_compatibility_score s) (fl (4/10))))"
proof -
  have "s \<in> set (candidates storage request_items base_item_id style_opt color_scheme')"
    if "s \<in> set (generate_outfit_suggestions storage request_items base_item_id style_opt
          color_scheme' k)"
    using that set_generate_outfit_suggestions by blast
  then have "made s"
    using assms
    by (auto simp: candidates_def made_all_suggestions made_generate_from_base
        made_generate_all_combinations)
  then show ?thesis by (auto simp: made_def total_score_make_suggestion)
qed

theorem total_score_weighted_witness:
  "make_suggestion [casual_top, streetwear_bottom] [TOP, BOTTOM]
     \<in> set (generate_outfit_suggestions [] (Some [casual_top, streetwear_bottom, casual_bottom])
         None None None 5) \<and>
   color_harmony_score (make_suggestion [casual_top, streetwear_bottom] [TOP, BOTTOM]) = 100 \<and>
   style_compatibility_score (make_suggestion [casual_top, streetwear_bottom] [TOP, BOTTOM]) = 55 \<and>
   total_score (make_suggestion [casual_top, streetwear_bottom] [TOP, BOTTOM])
     = py_round2 (fadd (fmul 100 (fl (6/10))) (fmul 55 (fl (4/10)))) \<and>
   total_score (make_suggestion [casual_top, streetwear_bottom] [TOP, BOTTOM]) = 82"
  using total_score_weighted[where s = "make_suggestion [casual_top, streetwear_bottom] [TOP, BOTTOM]"
      and base_item = casual_top and d = Map.empty and color_scheme = None
      and storage = "[]" and request_items = "Some [casual_top, streetwear_bottom, casual_bottom]"
      and base_item_id = None and style_opt = None and color_scheme' = None and k = 5]
  by (simp add: generate_three make_suggestion_casual_streetwear)




text \<open>
  The dictionary \<^verbatim>\<open>items_by_category\<close> holds, under each category that occurs, the items
  of that category in their order; the options of a pattern are complete exactly when each
  of its other categories is a key, and the tuples of \<^verbatim>\<open>_generate_from_base\<close> are the
  base item followed by one option of each other category.
\<close>

lemma foldl_group_step:
  "foldl group_step d all_items cat =
     (case d cat of
        None \<Rightarrow> (if filter (\<lambda>item. category item = cat) all_items = [] then None
                  else Some (filter (\<lambda>item. category item = cat) all_items))
      | Some l \<Rightarrow> Some (l @ filter (\<lambda>item. category item = cat) all_items))"
proof (induction all_items arbitrary: d)
  case Nil
  show ?case by (simp split: option.splits)
next
  case (Cons item all_items)
  show ?case
    by (simp add: Cons.IH) (simp add: group_step_def split: option.splits)
qed

lemma group_by_category_filter:
  "group_by_category all_items cat =
     (if filter (\<lambda>item. category item = cat) all_items = [] then None
      else Some (filter (\<lambda>item. category item = cat) all_items))"
  by (simp add: group_by_category_def foldl_group_step)

lemma group_by_category_stocked:
  assumes "\<exists>item \<in> set all_items. category item = cat"
  shows "\<exists>l. group_by_category all_items cat = Some l \<and> l \<noteq> []"
  using assms by (auto simp: group_by_category_filter filter_empty_conv)

lemma category_options_length_le:
  "length (category_options d base_rgb cs cats) \<le> length cats"
  by (induction cats) (auto simp: category_options_def map_filter_simps split: option.splits)

lemma category_options_length:
  "length (category_options d base_rgb cs cats) = length cats
     \<longleftrightarrow> list_all (\<lambda>cat. d cat \<noteq> None) cats"
proof (induction cats)
  case Nil
  show ?case by (simp add: category_options_def map_filter_simps)
next
  case (Cons cat cats)
  show ?case
  proof (cases "d cat")
    case None
    have "length (category_options d base_rgb cs cats) \<le> length cats"
      by (rule category_options_length_le)
    then show ?thesis using None
      by (simp add: category_options_def map_filter_simps)
  next
    case (Some l)
    then show ?thesis using Cons.IH
      by (simp add: category_options_def map_filter_simps)
  qed
qed

lemma category_options_present:
  "list_all (\<lambda>cat. d cat \<noteq> None) cats \<Longrightarrow>
     category_options d base_rgb cs cats
       = map (\<lambda>cat. narrow_options base_rgb cs (the (d cat))) cats"
  by (induction cats) (auto simp: category_options_def map_filter_simps)

lemma narrow_options_matches_base:
  "scheme \<noteq> [] \<Longrightarrow>
     narrow_options (Some b) (Some scheme) options
       = (if filter (matches_base b scheme) options = [] then options
          else filter (matches_base b scheme) options)"
  by (simp add: narrow_options_def given_def Let_def matches_base_def[abs_def]
      cong: option.case_cong)

lemma tuples_of_pattern:
  "map suggestion_items (generate_for_pattern base_item d cs pat)
     = (if list_all (\<lambda>cat. d cat \<noteq> None) (filter (\<lambda>c. c \<noteq> category base_item) pat)
        then map ((#) base_item)
               (itertools_product
                  (map (\<lambda>cat. narrow_options (get_dominant_rgb base_item) cs (the (d cat)))
                     (filter (\<lambda>c. c \<noteq> category base_item) pat)))
        else [])"
  by (simp add: generate_for_pattern_def Let_def category_options_length
      category_options_present comp_def suggestion_items_make_suggestion)

lemma tuples_of_base:
  "map suggestion_items (generate_from_base base_item d cs)
     = concat (map (\<lambda>pat.
          if list_all (\<lambda>cat. d cat \<noteq> None) (filter (\<lambda>c. c \<noteq> category base_item) pat)
          then map ((#) base_item)
                 (itertools_product
                    (map (\<lambda>cat. narrow_options (get_dominant_rgb base_item) cs (the (d cat)))
                       (filter (\<lambda>c. c \<noteq> category base_item) pat)))
          else [])
        (filter (\<lambda>pat. category base_item \<in> set pat) OUTFIT_COMBINATIONS))"
  by (simp add: generate_from_base_def Let_def map_concat comp_def tuples_of_pattern)

lemma generate_from_base_nonempty:
  assumes "pat \<in> set OUTFIT_COMBINATIONS" "category base_item \<in> set pat"
    and "\<forall>cat \<in> set pat. \<exists>l. d cat = Some l \<and> l \<noteq> []"
  shows "generate_from_base base_item d cs \<noteq> []"
proof -
  have "list_all (\<lambda>cat. \<exists>l. d cat = Some l \<and> l \<noteq> []) (filter (\<lambda>c. c \<noteq> category base_item) pat)"
    using assms(3) by (simp add: list_all_iff)
  from category_options_all_present[OF this, of "get_dominant_rgb base_item" cs]
  have "generate_for_pattern base_item d cs pat \<noteq> []"
    by (simp add: generate_for_pattern_def Let_def itertools_product_nonempty)
  moreover have "pat \<in> set (filter (\<lambda>pat. category base_item \<in> set pat) OUTFIT_COMBINATIONS)"
    using assms(1,2) by simp
  ultimately show ?thesis
    unfolding generate_from_base_def Let_def concat_eq_Nil_conv by (auto simp del: set_filter)
qed

lemma slice_to_nonempty: "xs \<noteq> [] \<Longrightarrow> 1 \<le> k \<Longrightarrow> slice_to xs k \<noteq> []"
  by (simp add: slice_to_def)

lemma sort_reverse_nonempty: "xs \<noteq> [] \<Longrightarrow> sort_reverse key xs \<noteq> []"
  using length_sort[of "\<lambda>x. - key x" xs] unfolding sort_reverse_def by (cases xs) auto

lemma coloured_garment_fields:
  "style red_bottom = CASUAL" "style green_shoes = CASUAL"
  "category green_shoes = SHOES"
  "item_id casual_top = ''t1''" "item_id red_bottom = ''b3''" "item_id green_shoes = ''s2''"
  by (simp_all add: casual_top_def red_bottom_def green_shoes_def)

lemma matches_base_examples:
  "\<not> matches_base (255, 0, 0) ''analogous'' casual_top"
  "\<not> matches_base (255, 0, 0) ''analogous'' green_shoes"
  by (simp_all add: matches_base_def dominant_rgb_examples colors_match_red_green)

text \<open>
  Claim C9. When no garment has the requested style, the style filter is dropped:
  \<^verbatim>\<open>generate_outfit_suggestions\<close> returns what it returns without a style. In base-item
  mode, with a base colour and a colour scheme, \<^verbatim>\<open>_generate_from_base\<close> generates, for
  each pattern that contains the base category and whose other categories all have
  garments, the base item followed by every tuple over the options of those categories,
  where the options of a category are the garments matching the base colour, and all the
  garments of the category when none matches. Neither empty filter empties the result:
  when the base item is found among the garments kept and some pattern with its category
  has a garment in every category, \<^verbatim>\<open>generate_outfit_suggestions\<close> returns at least one
  suggestion for every limit of at least 1.
\<close>

theorem empty_filters_fall_back:
  "(filter (\<lambda>item. style item = st) (selected_items storage request_items) = [] \<longrightarrow>
      filter_by_style (Some st) (selected_items storage request_items)
        = selected_items storage request_items \<and>
      generate_outfit_suggestions storage request_items base_item_id (Some st) color_scheme k
        = generate_outfit_suggestions storage request_items base_item_id None color_scheme k) \<and>
   (get_dominant_rgb base_item = Some b \<and> scheme \<noteq> [] \<longrightarrow>
      map suggestion_items (generate_from_base base_item items_by_category (Some scheme))
        = concat (map (\<lambda>pat.
            if list_all (\<lambda>cat. items_by_category cat \<noteq> None)
                 (filter (\<lambda>c. c \<noteq> category base_item) pat)
            then map ((#) base_item)
                   (itertools_product
                      (map (\<lambda>cat.
                          if filter (matches_base b scheme) (the (items_by_category cat)) = []
                          then the (items_by_category cat)
                          else filter (matches_base b scheme) (the (items_by_category cat)))
                        (filter (\<lambda>c. c \<noteq> category base_item) pat)))
            else [])
          (filter (\<lambda>pat. category base_item \<in> set pat) OUTFIT_COMBINATIONS))) \<and>
   (base_id \<noteq> [] \<and>
    find (\<lambda>item. item_id item = base_id)
      (filter_by_style style_opt (selected_items storage request_items)) = Some found \<and>
    pat \<in> set OUTFIT_COMBINATIONS \<and> category found \<in> set pat \<and>
    (\<forall>cat \<in> set pat. \<exists>item \<in> set (filter_by_style style_opt (selected_items storage request_items)).
        category item = cat) \<and>
    1 \<le> k \<longrightarrow>
      generate_outfit_suggestions storage request_items (Some base_id) style_opt color_scheme k
        \<noteq> [])"
proof (intro conjI impI)
  assume e: "filter (\<lambda>item. style item = st) (selected_items storage request_items) = []"
  then show f: "filter_by_style (Some st) (selected_items storage request_items)
        = selected_items storage request_items"
    by (simp add: filter_by_style_def)
  show "generate_outfit_suggestions storage request_items base_item_id (Some st) color_scheme k
        = generate_outfit_suggestions storage request_items base_item_id None color_scheme k"
    by (simp add: generate_outfit_suggestions_def Let_def f) (simp add: filter_by_style_def)
next
  assume "get_dominant_rgb base_item = Some b \<and> scheme \<noteq> []"
  then have d: "get_dominant_rgb base_item = Some b" and s: "scheme \<noteq> []" by simp_all
  show "map suggestion_items (generate_from_base base_item items_by_category (Some scheme))
        = concat (map (\<lambda>pat.
            if list_all (\<lambda>cat. items_by_category cat \<noteq> None)
                 (filter (\<lambda>c. c \<noteq> category base_item) pat)
            then map ((#) base_item)
                   (itertools_product
                      (map (\<lambda>cat.
                          if filter (matches_base b scheme) (the (items_by_category cat)) = []
                          then the (items_by_category cat)
                          else filter (matches_base b scheme) (the (items_by_category cat)))
                        (filter (\<lambda>c. c \<noteq> category base_item) pat)))
            else [])
          (filter (\<lambda>pat. category base_item \<in> set pat) OUTFIT_COMBINATIONS))"
    unfolding tuples_of_base d narrow_options_matches_base[OF s] ..
next
  let ?items = "filter_by_style style_opt (selected_items storage request_items)"
  assume a: "base_id \<noteq> [] \<and>
    find (\<lambda>item. item_id item = base_id) ?items = Some found \<and>
    pat \<in> set OUTFIT_COMBINATIONS \<and> category found \<in> set pat \<and>
    (\<forall>cat \<in> set pat. \<exists>item \<in> set ?items. category item = cat) \<and> 1 \<le> k"
  then have "?items \<noteq> []" by auto
  then have sel: "selected_items storage request_items \<noteq> []"
    by (auto simp: filter_by_style_def split: option.splits)
  have "\<forall>cat \<in> set pat. \<exists>l. group_by_category ?items cat = Some l \<and> l \<noteq> []"
    using a group_by_category_stocked[of ?items] by blast
  then have "generate_from_base found (group_by_category ?items) color_scheme \<noteq> []"
    using a by (intro generate_from_base_nonempty[of pat]) simp_all
  then have "all_suggestions ?items (Some base_id) color_scheme \<noteq> []"
    using a by (simp add: all_suggestions_def Let_def given_def)
  then have "slice_to (sort_reverse total_score
      (all_suggestions ?items (Some base_id) color_scheme)) k \<noteq> []"
    using a by (intro slice_to_nonempty sort_reverse_nonempty) simp_all
  then show "generate_outfit_suggestions storage request_items (Some base_id) style_opt
      color_scheme k \<noteq> []"
    using sel by (simp add: generate_outfit_suggestions_def Let_def)
qed

theorem empty_filters_fall_back_witness:
  "filter (\<lambda>item. style item = FORMAL)
      (selected_items [] (Some [casual_top, red_bottom, green_shoes])) = [] \<and>
   filter_by_style (Some FORMAL) (selected_items [] (Some [casual_top, red_bottom, green_shoes]))
     = [casual_top, red_bottom, green_shoes] \<and>
   generate_outfit_suggestions [] (Some [casual_top, red_bottom, green_shoes]) (Some ''b3'')
       (Some FORMAL) (Some ''analogous'') 5
     = generate_outfit_suggestions [] (Some [casual_top, red_bottom, green_shoes]) (Some ''b3'')
         None (Some ''analogous'') 5 \<and>
   get_dominant_rgb red_bottom = Some (255, 0, 0) \<and>
   filter (matches_base (255, 0, 0) ''analogous'') [green_shoes] = [] \<and>
   map suggestion_items
       (generate_from_base red_bottom (group_by_category [casual_top, red_bottom, green_shoes])
          (Some ''analogous''))
     = [[red_bottom, casual_top], [red_bottom, casual_top, green_shoes]] \<and>
   find (\<lambda>item. item_id item = ''b3'')
       (filter_by_style (Some FORMAL)
          (selected_items [] (Some [casual_top, red_bottom, green_shoes]))) = Some red_bottom \<and>
   [TOP, BOTTOM, SHOES] \<in> set OUTFIT_COMBINATIONS \<and>
   generate_outfit_suggestions [] (Some [casual_top, red_bottom, green_shoes]) (Some ''b3'')
       (Some FORMAL) (Some ''analogous'') 5 \<noteq> []"
  using empty_filters_fall_back[where st = FORMAL and storage = "[]"
      and request_items = "Some [casual_top, red_bottom, green_shoes]"
      and base_item_id = "Some ''b3''" and color_scheme = "Some ''analogous''" and k = 5
      and base_item = red_bottom and b = "(255, 0, 0)" and scheme = "''analogous''"
      and items_by_category = "group_by_category [casual_top, red_bottom, green_shoes]"
      and base_id = "''b3''" and style_opt = "Some FORMAL" and found = red_bottom
      and pat = "[TOP, BOTTOM, SHOES]"]
  by (clarsimp simp add: selected_items_def filter_by_style_def garment_fields coloured_garment_fields
      dominant_rgb_examples matches_base_examples group_red_green OUTFIT_COMBINATIONS_def)

subsection \<open>Colour extraction\<close>

text \<open>Percentages stay between 0 and 100 through the roundings.\<close>

lemma fl_between:
  assumes "of_int a \<le> x" "x \<le> of_int b" "\<bar>a\<bar> \<le> 2 ^ 53" "\<bar>b\<bar> \<le> 2 ^ 53"
  shows "of_int a \<le> fl x" "fl x \<le> of_int b"
  using fl_mono[OF assms(1)] fl_mono[OF assms(2)] fl_of_int[OF assms(3)] fl_of_int[OF assms(4)]
  by simp_all

lemma py_round2_between:
  assumes "0 \<le> x" "x \<le> 100"
  shows "0 \<le> py_round2 x" "py_round2 x \<le> 100"
proof -
  have "rhe (of_int 0) \<le> rhe (x * 100)" using assms(1) by (intro rhe_mono) simp
  then have lo: "0 \<le> rhe (x * 100)" by (simp only: rhe_of_int)
  have "rhe (x * 100) \<le> rhe (of_int 10000)" using assms(2) by (intro rhe_mono) simp
  then have hi: "rhe (x * 100) \<le> 10000" by (simp only: rhe_of_int)
  have a: "of_int 0 \<le> (of_int (rhe (x * 100)) / 100 :: real)" using lo by simp
  have "(of_int (rhe (x * 100)) :: real) \<le> of_int 10000" using hi by (simp only: of_int_le_iff)
  then have b: "(of_int (rhe (x * 100)) / 100 :: real) \<le> of_int 100" by simp
  show "0 \<le> py_round2 x" using fl_between(1)[OF a b] by (simp add: py_round2_def)
  show "py_round2 x \<le> 100" using fl_between(2)[OF a b] by (simp add: py_round2_def)
qed

lemma percentage_between:
  assumes "c \<le> t" "0 < t"
  shows "0 \<le> py_round2 (fmul (fdiv (of_int (int c)) (of_int (int t))) 100)"
    and "py_round2 (fmul (fdiv (of_int (int c)) (of_int (int t))) 100) \<le> 100"
proof -
  define q :: real where "q = of_int (int c) / of_int (int t)"
  have q: "of_int 0 \<le> q" "q \<le> of_int 1" using assms by (simp_all add: q_def)
  have f: "0 \<le> fl q" "fl q \<le> 1" using fl_between[OF q] by simp_all
  have m: "of_int 0 \<le> fl q * 100" "fl q * 100 \<le> of_int 100" using f by simp_all
  have p: "0 \<le> fl (fl q * 100)" "fl (fl q * 100) \<le> 100" using fl_between[OF m] by simp_all
  show "0 \<le> py_round2 (fmul (fdiv (of_int (int c)) (of_int (int t))) 100)"
    using py_round2_between(1)[OF p] by (simp add: fmul_def fdiv_def q_def)
  show "py_round2 (fmul (fdiv (of_int (int c)) (of_int (int t))) 100) \<le> 100"
    using py_round2_between(2)[OF p] by (simp add: fmul_def fdiv_def q_def)
qed

lemma count_pixels_total:
  "count_pixels palette pixels counts = Inr counts' \<Longrightarrow>
   length counts' = length counts \<and> sum_list counts' = sum_list counts + length pixels"
proof (induction pixels arbitrary: counts)
  case Nil
  then show ?case by simp
next
  case (Cons p ps)
  define i where "i = closest_index p palette"
  from Cons.prems have i: "i < length counts"
    by (simp add: i_def Let_def split: if_splits)
  with Cons.prems have "count_pixels palette ps (counts[i := counts ! i + 1]) = Inr counts'"
    by (simp add: i_def Let_def)
  from Cons.IH[OF this] have "length counts' = length counts"
    and "sum_list counts' = sum_list (counts[i := counts ! i + 1]) + length ps" by simp_all
  moreover have "sum_list (counts[i := counts ! i + 1]) = sum_list counts + 1"
    using i by (simp add: sum_list_update)
  ultimately show ?case by simp
qed

lemma count_pixels_le:
  assumes "count_pixels palette pixels (replicate n 0) = Inr counts" "c \<in> set counts"
  shows "c \<le> length pixels"
proof -
  from count_pixels_total[OF assms(1)] have "sum_list counts = length pixels" by simp
  moreover have "c \<le> sum_list counts" using assms(2) by (simp add: member_le_sum_list)
  ultimately show ?thesis by simp
qed

lemma sorted_wrt_take: "sorted_wrt P xs \<Longrightarrow> sorted_wrt P (take n xs)"
  by (metis append_take_drop_id sorted_wrt_append)

lemma slice_to_sorted: "sorted_wrt P xs \<Longrightarrow> sorted_wrt P (slice_to xs k)"
  by (simp add: slice_to_def sorted_wrt_take)

lemma length_slice_to: "0 \<le> k \<Longrightarrow> int (length (slice_to xs k)) \<le> k"
  by (simp add: slice_to_def)

lemma sort_reverse_descending: "sorted_wrt (\<lambda>a b. key b \<le> key a) (sort_reverse key xs)"
  using sorted_sort_key[of "\<lambda>x. - key x" xs] by (simp add: sort_reverse_def sorted_map)

lemma colors_of_palette_invariant:
  assumes "colors_of_palette env valid_pixels palette num_colors = Inr colors" "1 \<le> num_colors"
  shows "sorted_wrt (\<lambda>a b. percentage b \<le> percentage a) colors \<and>
     int (length colors) \<le> num_colors \<and>
     (\<forall>c \<in> set colors. 0 \<le> percentage c \<and> percentage c \<le> 100)"
proof -
  define fp where "fp = (if filter (\<lambda>c. \<not> is_background_color c) palette = [] then palette
     else filter (\<lambda>c. \<not> is_background_color c) palette)"
  define total where "total = (if valid_pixels \<noteq> [] then length valid_pixels else 1)"
  from assms(1) obtain counts where
    counts: "count_pixels fp valid_pixels (replicate (length fp) 0) = Inr counts"
    and colors: "colors = slice_to (sort_reverse percentage
        (map (\<lambda>(c, n). color_info env total c n) (zip fp counts))) num_colors"
    by (auto simp: colors_of_palette_def Let_def fp_def total_def split: sum.splits)
  have total: "0 < total" "length valid_pixels \<le> total" by (auto simp: total_def)
  have "0 \<le> percentage x \<and> percentage x \<le> 100"
    if "x \<in> set (map (\<lambda>(c, n). color_info env total c n) (zip fp counts))" for x
  proof -
    from that obtain c n where x: "x = color_info env total c n" and "(c, n) \<in> set (zip fp counts)"
      by auto
    then have "n \<in> set counts" by (auto dest: set_zip_rightD)
    then have "n \<le> total" using count_pixels_le[OF counts] total(2) by fastforce
    then show ?thesis using percentage_between[OF _ total(1), of n] by (simp add: x color_info_def)
  qed
  moreover have "set colors \<subseteq> set (map (\<lambda>(c, n). color_info env total c n) (zip fp counts))"
    unfolding colors using set_slice_to by (fastforce simp: sort_reverse_def)
  ultimately have "\<forall>c \<in> set colors. 0 \<le> percentage c \<and> percentage c \<le> 100" by blast
  moreover have "sorted_wrt (\<lambda>a b. percentage b \<le> percentage a) colors"
    unfolding colors by (intro slice_to_sorted sort_reverse_descending)
  moreover have "int (length colors) \<le> num_colors"
    unfolding colors using assms(2) by (intro length_slice_to) simp
  ultimately show ?thesis by simp
qed

text \<open>The image of two red pixels and a white one.\<close>

lemma red_blue_distance_1: "fdiv 255 2 = 255 / 2"
  unfolding fdiv_def
  by (subst fl_eval[where e = "- 46"]) (simp_all add: rhe_def Let_def)

lemma red_blue_distance_2: "fdiv (255 / 2) 256 = 255 / 512"
  unfolding fdiv_def
  by (subst fl_eval[where e = "- 54"]) (simp_all add: rhe_def Let_def)

lemma red_blue_distance_3: "fadd 2 (255 / 512) = 1279 / 512"
  unfolding fadd_def
  by (subst fl_eval[where e = "- 51"]) (simp_all add: rhe_def Let_def)

lemma red_blue_distance_4: "fl 65025 = 65025"
  by (subst fl_eval[where e = "- 37"]) (simp_all add: rhe_def Let_def)

lemma red_blue_distance_5: "fmul (1279 / 512) 65025 = 83166975 / 512"
  unfolding fmul_def
  by (subst fl_eval[where e = "- 35"]) (simp_all add: rhe_def Let_def)

lemma red_blue_distance_6: "fl 0 = 0"
  by (simp add: fl_zero)

lemma red_blue_distance_7: "fsub 255 (255 / 2) = 255 / 2"
  unfolding fsub_def
  by (subst fl_eval[where e = "- 46"]) (simp_all add: rhe_def Let_def)

lemma red_blue_distance_8: "fadd (83166975 / 512) 0 = 83166975 / 512"
  unfolding fadd_def
  by (subst fl_eval[where e = "- 35"]) (simp_all add: rhe_def Let_def)

lemma red_blue_distance_9: "fadd (83166975 / 512) (83166975 / 512) = 83166975 / 256"
  unfolding fadd_def
  by (subst fl_eval[where e = "- 34"]) (simp_all add: rhe_def Let_def)

lemma color_distance_red_blue: "0 < color_distance (255, 0, 0) (0, 0, 255)"
  by (simp add: color_distance_def Let_def fl_pos
      red_blue_distance_1 red_blue_distance_2 red_blue_distance_3 red_blue_distance_4
      red_blue_distance_5 red_blue_distance_6 red_blue_distance_7 red_blue_distance_8
      red_blue_distance_9)

lemma red_red_distance_1: "fdiv 510 2 = 255"
  unfolding fdiv_def
  by (subst fl_eval[where e = "- 45"]) (simp_all add: rhe_def Let_def)

lemma red_red_distance_2: "fdiv 255 256 = 255 / 256"
  unfolding fdiv_def
  by (subst fl_eval[where e = "- 53"]) (simp_all add: rhe_def Let_def)

lemma red_red_distance_3: "fadd 2 (255 / 256) = 767 / 256"
  unfolding fadd_def
  by (subst fl_eval[where e = "- 51"]) (simp_all add: rhe_def Let_def)

lemma red_red_distance_4: "fmul (767 / 256) 0 = 0"
  by (simp add: fmul_def fl_zero)

lemma red_red_distance_5: "fsub 255 255 = 0"
  by (simp add: fsub_def fl_zero)

lemma red_red_distance_6: "fdiv 0 256 = 0"
  by (simp add: fdiv_def fl_zero)

lemma red_red_distance_7: "fadd 2 0 = 2"
  unfolding fadd_def
  by (subst fl_eval[where e = "- 51"]) (simp_all add: rhe_def Let_def)

lemma red_red_distance_8: "fmul 2 0 = 0"
  by (simp add: fmul_def fl_zero)

lemma red_red_distance_9: "fadd 0 0 = 0"
  by (simp add: fadd_def fl_zero)

lemma color_distance_red_red: "color_distance (255, 0, 0) (255, 0, 0) = 0"
  by (simp add: color_distance_def Let_def fl_zero
      red_red_distance_1 red_red_distance_2 red_red_distance_3 red_blue_distance_6
      red_red_distance_4 red_red_distance_5 red_red_distance_6 red_red_distance_7
      red_red_distance_8 red_red_distance_9)

lemma red_image_percentage_1: "fdiv 2 2 = 1"
  unfolding fdiv_def
  by (subst fl_eval[where e = "- 52"]) (simp_all add: rhe_def Let_def)

lemma red_image_percentage_2: "fmul 1 100 = 100"
  unfolding fmul_def
  by (subst fl_eval[where e = "- 46"]) (simp_all add: rhe_def Let_def)

lemma red_image_percentage_3: "py_round2 100 = 100"
  unfolding py_round2_def
  by (subst fl_eval[where e = "- 46"]) (simp_all add: rhe_def Let_def)

lemma red_image_percentage_4: "fdiv 0 2 = 0"
  by (simp add: fdiv_def fl_zero)

lemma red_image_percentage_5: "fmul 0 100 = 0"
  by (simp add: fmul_def fl_zero)

lemma red_image_percentage_6: "py_round2 0 = 0"
  by (simp add: py_round2_def rhe_def Let_def fl_zero)

lemma closest_index_red:
  "closest_index (255, 0, 0) [(0, 0, 255), (255, 0, 0)] = 1"
  using color_distance_red_blue
  by (simp add: closest_index_def closest_step_def Let_def color_distance_red_red)

lemma rgb_to_hex_red_blue:
  "rgb_to_hex (255, 0, 0) = ''#ff0000''" "rgb_to_hex (0, 0, 255) = ''#0000ff''"
  by (simp_all add: rgb_to_hex_def format_02x_def Let_def)

lemma extract_colors_red_image:
  "extract_colors red_image 5
     = Inr [red, \<lparr>hex = ''#0000ff'', rgb = (0, 0, 255), name = ''blue'', percentage = 0\<rparr>]"
  by (simp add: extract_colors_def red_image_def filter_background_def map_filter_simps
      is_background_color_def colors_of_palette_def Let_def closest_index_red
      color_info_def rgb_to_hex_red_blue sort_reverse_def slice_to_def red_def
      red_image_percentage_1 red_image_percentage_2 red_image_percentage_3
      red_image_percentage_4 red_image_percentage_5 red_image_percentage_6)

text \<open>
  Claim C10. Whenever \<^verbatim>\<open>extract_colors\<close> returns colours for \<open>num_colors \<ge> 1\<close>, they are
  in descending order of percentage, at most \<open>num_colors\<close> many, and every percentage lies
  in \<open>[0, 100]\<close>.
\<close>

theorem extracted_colors_invariant:
  assumes "extract_colors env num_colors = Inr colors" "1 \<le> num_colors"
  shows "sorted_wrt (\<lambda>a b. percentage b \<le> percentage a) colors \<and>
     int (length colors) \<le> num_colors \<and>
     (\<forall>c \<in> set colors. 0 \<le> percentage c \<and> percentage c \<le> 100)"
proof -
  have "\<exists>valid_pixels palette.
      colors_of_palette env valid_pixels palette num_colors = Inr colors"
  proof (cases "resized_pixels env")
    case None
    then show ?thesis using assms(1) by (simp add: extract_colors_def)
  next
    case (Some pixels)
    show ?thesis
    proof (cases "length (filter_background pixels) < 100")
      case True
      then show ?thesis using assms(1) Some
        by (auto simp: extract_colors_def Let_def split: option.splits)
    next
      case False
      then show ?thesis using assms(1) Some
        by (auto simp: extract_colors_def Let_def split: option.splits)
    qed
  qed
  then obtain valid_pixels palette where
    "colors_of_palette env valid_pixels palette num_colors = Inr colors" by blast
  then show ?thesis using assms(2) by (rule colors_of_palette_invariant)
qed

theorem extracted_colors_invariant_witness:
  "extract_colors red_image 5
     = Inr [red, \<lparr>hex = ''#0000ff'', rgb = (0, 0, 255), name = ''blue'', percentage = 0\<rparr>] \<and>
   (1::int) \<le> 5 \<and>
   sorted_wrt (\<lambda>a b. percentage b \<le> percentage a)
     [red, \<lparr>hex = ''#0000ff'', rgb = (0, 0, 255), name = ''blue'', percentage = 0\<rparr>] \<and>
   int (length [red, \<lparr>hex = ''#0000ff'', rgb = (0, 0, 255), name = ''blue'', percentage = 0\<rparr>]) \<le> 5 \<and>
   percentage red = 100"
  using extracted_colors_invariant[OF extract_colors_red_image]
  by (simp add: extract_colors_red_image red_def)

subsection \<open>The HSL round trip\<close>

text \<open>
  The float channels that come back from a round trip are within \<open>23200\<close> units of
  \<open>2^-53\<close> of the original channels over 255; the subsections below follow the two
  conversions operation by operation.
\<close>

subsubsection \<open>Error bounds of the rounded operations\<close>













subsubsection \<open>The channels divided by 255\<close>

text \<open>
  Dividing by 255 keeps the order of the channels, so the largest and smallest float channels are those of the largest and smallest integer channels.
\<close>







subsubsection \<open>Lightness\<close>









subsubsection \<open>Saturation\<close>







subsubsection \<open>Hue\<close>











subsubsection \<open>The floats \<^verbatim>\<open>rgb_to_hls\<close> returns\<close>


subsubsection \<open>Scaling to degrees and percent and back\<close>





subsubsection \<open>The two bounds \<^verbatim>\<open>m1\<close> and \<^verbatim>\<open>m2\<close>\<close>






subsubsection \<open>The exact channel function\<close>









lemma clamp_range:
  fixes z :: real
  shows "0 \<le> max 0 (min 1 z)" "max 0 (min 1 z) \<le> 1"
  by simp_all



subsubsection \<open>The float channel function \<^verbatim>\<open>_v\<close>\<close>


lemma near_sym: "near d x y \<Longrightarrow> near d y x"
  unfolding near_def by linarith











subsubsection \<open>The exact round trip\<close>









subsubsection \<open>Truncating and rounding a float near an integer\<close>




subsubsection \<open>The round trip\<close>







end
